theory Spec2Isabelle
  imports Main "HOL-Library.Char_ord" "HOL-Library.List_Lexorder"
begin

section \<open>Python values\<close>

text \<open>
  The module \<^verbatim>\<open>characteristic.py\<close> attaches comparison, hashing, formatting and
  construction methods to a class, all driven by a list of attribute names. The
  embedding follows Python 3 (the names of version 3.8). Attribute values range over the
  immutable built-in values below: \<^verbatim>\<open>None\<close>, booleans, unbounded integers, strings
  (of code points below 256), tuples of such values, and the objects the builtins module
  binds to a name (functions such as \<^verbatim>\<open>len\<close>, classes such as \<^verbatim>\<open>int\<close>, \<^verbatim>\<open>Ellipsis\<close>,
  \<^verbatim>\<open>NotImplemented\<close>), each standing for itself.
\<close>

datatype pyval =
    PNone
  | PBool bool
  | PInt int
  | PStr string
  | PTuple "pyval list"
  | PBuiltin string

datatype error =
    AttributeError string
  | NameError string
  | KeyError
  | SyntaxError
  | TypeError
  | MissingArguments "string list"
  | UnexpectedKeyword string
  | MultipleValues string
  | TooManyPositional
  | RecursionError
  | Raised string
  | Unmodelled string

text \<open>
  \<^verbatim>\<open>bool\<close> is a subclass of \<^verbatim>\<open>int\<close>: in comparisons and hashes \<^verbatim>\<open>True\<close> and
  \<^verbatim>\<open>False\<close> behave as 1 and 0.
\<close>

fun as_int :: "pyval \<Rightarrow> int option" where
  "as_int (PBool b) = Some (if b then 1 else 0)"
| "as_int (PInt n) = Some n"
| "as_int _ = None"

text \<open>
  \<^verbatim>\<open>a == b\<close> on built-in values never raises. Two tuples are equal when they have the
  same length and no position holds unequal items; the interpreter's loop walks both
  tuples to the first position whose items are not equal. A function or class of the
  builtins is equal to itself only.
\<close>

fun py_eq :: "pyval \<Rightarrow> pyval \<Rightarrow> bool"
  and tuple_eq :: "pyval list \<Rightarrow> pyval list \<Rightarrow> bool" where
  "py_eq PNone b = (b = PNone)"
| "py_eq (PBool x) b = (as_int b = Some (if x then 1 else 0))"
| "py_eq (PInt n) b = (as_int b = Some n)"
| "py_eq (PStr s) b = (b = PStr s)"
| "py_eq (PTuple xs) b = (case b of PTuple ys \<Rightarrow> tuple_eq xs ys | _ \<Rightarrow> False)"
| "py_eq (PBuiltin n) b = (b = PBuiltin n)"
| "tuple_eq [] ys = (ys = [])"
| "tuple_eq (x # xs) ys =
     (case ys of [] \<Rightarrow> False
      | y # ys' \<Rightarrow> if py_eq x y then tuple_eq xs ys' else False)"

datatype ordop = Lt | Le | Gt | Ge

text \<open>The four ordering operators on a linearly ordered built-in type.\<close>

definition ord_holds :: "ordop \<Rightarrow> 'a::linorder \<Rightarrow> 'a \<Rightarrow> bool" where
  "ord_holds op a b =
     (case op of Lt \<Rightarrow> a < b | Le \<Rightarrow> a \<le> b | Gt \<Rightarrow> b < a | Ge \<Rightarrow> b \<le> a)"

text \<open>
  Ordering is defined between two numbers, two strings (by code point, lexicographically)
  and two tuples; any other pair raises \<^verbatim>\<open>TypeError\<close>. Tuple ordering looks for the
  first position whose items are not equal (with \<^verbatim>\<open>==\<close>) and applies the operator to
  that pair of items; when one tuple is a prefix of the other the lengths are compared.
\<close>

fun py_ord :: "ordop \<Rightarrow> pyval \<Rightarrow> pyval \<Rightarrow> error + bool"
  and tuple_ord :: "ordop \<Rightarrow> pyval list \<Rightarrow> pyval list \<Rightarrow> error + bool" where
  "py_ord op PNone b = Inl TypeError"
| "py_ord op (PBool x) b =
     (case as_int b of Some n \<Rightarrow> Inr (ord_holds op (if x then 1 else 0) n)
      | None \<Rightarrow> Inl TypeError)"
| "py_ord op (PInt m) b =
     (case as_int b of Some n \<Rightarrow> Inr (ord_holds op m n) | None \<Rightarrow> Inl TypeError)"
| "py_ord op (PStr s) b =
     (case b of PStr t \<Rightarrow> Inr (ord_holds op s t) | _ \<Rightarrow> Inl TypeError)"
| "py_ord op (PTuple xs) b =
     (case b of PTuple ys \<Rightarrow> tuple_ord op xs ys | _ \<Rightarrow> Inl TypeError)"
| "py_ord op (PBuiltin n) b = Inl TypeError"
| "tuple_ord op [] ys = Inr (ord_holds op (0::nat) (length ys))"
| "tuple_ord op (x # xs) ys =
     (case ys of [] \<Rightarrow> Inr (ord_holds op (Suc (length xs)) 0)
      | y # ys' \<Rightarrow> if py_eq x y then tuple_ord op xs ys' else py_ord op x y)"


section \<open>The builtins namespace\<close>

text \<open>
  The functions and the classes (exceptions among them) of the builtins module. Besides
  them the module binds \<^verbatim>\<open>Ellipsis\<close> and \<^verbatim>\<open>NotImplemented\<close>, the strings \<^verbatim>\<open>__name__\<close>
  and \<^verbatim>\<open>__package__\<close>, and a few objects that are not values of the universe (see
  \<open>foreign_names\<close> below).
\<close>

definition builtin_functions :: "string list" where
  "builtin_functions =
     [''__build_class__'', ''__import__'', ''abs'', ''all'', ''any'', ''ascii'', ''bin'',
      ''breakpoint'', ''callable'', ''chr'', ''compile'', ''delattr'', ''dir'', ''divmod'',
      ''eval'', ''exec'', ''format'', ''getattr'', ''globals'', ''hasattr'', ''hash'',
      ''hex'', ''id'', ''input'', ''isinstance'', ''issubclass'', ''iter'', ''len'',
      ''locals'', ''max'', ''min'', ''next'', ''oct'', ''open'', ''ord'', ''pow'', ''print'',
      ''repr'', ''round'', ''setattr'', ''sorted'', ''sum'', ''vars'']"

definition builtin_classes :: "string list" where
  "builtin_classes =
     [''bool'', ''bytearray'', ''bytes'', ''classmethod'', ''complex'', ''dict'',
      ''enumerate'', ''filter'', ''float'', ''frozenset'', ''int'', ''list'', ''map'',
      ''memoryview'', ''object'', ''property'', ''range'', ''reversed'', ''set'', ''slice'',
      ''staticmethod'', ''str'', ''super'', ''tuple'', ''type'', ''zip'',
      ''ArithmeticError'', ''AssertionError'', ''AttributeError'', ''BaseException'',
      ''BlockingIOError'', ''BrokenPipeError'', ''BufferError'', ''BytesWarning'',
      ''ChildProcessError'', ''ConnectionAbortedError'', ''ConnectionError'',
      ''ConnectionRefusedError'', ''ConnectionResetError'', ''DeprecationWarning'',
      ''EOFError'', ''EnvironmentError'', ''Exception'', ''FileExistsError'',
      ''FileNotFoundError'', ''FloatingPointError'', ''FutureWarning'', ''GeneratorExit'',
      ''IOError'', ''ImportError'', ''ImportWarning'', ''IndentationError'', ''IndexError'',
      ''InterruptedError'', ''IsADirectoryError'', ''KeyError'', ''KeyboardInterrupt'',
      ''LookupError'', ''MemoryError'', ''ModuleNotFoundError'', ''NameError'',
      ''NotADirectoryError'', ''NotImplementedError'', ''OSError'', ''OverflowError'',
      ''PendingDeprecationWarning'', ''PermissionError'', ''ProcessLookupError'',
      ''RecursionError'', ''ReferenceError'', ''ResourceWarning'', ''RuntimeError'',
      ''RuntimeWarning'', ''StopAsyncIteration'', ''StopIteration'', ''SyntaxError'',
      ''SyntaxWarning'', ''SystemError'', ''SystemExit'', ''TabError'', ''TimeoutError'',
      ''TypeError'', ''UnboundLocalError'', ''UnicodeDecodeError'', ''UnicodeEncodeError'',
      ''UnicodeError'', ''UnicodeTranslateError'', ''UnicodeWarning'', ''UserWarning'',
      ''ValueError'', ''Warning'', ''ZeroDivisionError'']"

definition builtins :: "string \<Rightarrow> pyval option" where
  "builtins x =
     (if x \<in> set builtin_functions \<or> x \<in> set builtin_classes \<or>
         x = ''Ellipsis'' \<or> x = ''NotImplemented'' then Some (PBuiltin x)
      else if x = ''__name__'' then Some (PStr ''builtins'')
      else if x = ''__package__'' then Some (PStr [])
      else None)"

section \<open>Hashing and formatting built-in values\<close>

text \<open>
  The hash of an integer, of a string, of \<^verbatim>\<open>None\<close> and of an object of the builtins, and
  the function that combines the hashes of a tuple's items, belong to the interpreter
  (string hashes change from one process to the next), so they are parameters. A boolean
  hashes as the integer it equals; the values of this universe are all hashable.
\<close>

record hashing =
  hash_int :: "int \<Rightarrow> int"
  hash_str :: "string \<Rightarrow> int"
  hash_none :: int
  hash_tuple :: "int list \<Rightarrow> int"
  hash_builtin :: "string \<Rightarrow> int"

fun py_hash :: "'h hashing_scheme \<Rightarrow> pyval \<Rightarrow> int" where
  "py_hash h PNone = hash_none h"
| "py_hash h (PBool b) = hash_int h (if b then 1 else 0)"
| "py_hash h (PInt n) = hash_int h n"
| "py_hash h (PStr s) = hash_str h s"
| "py_hash h (PTuple xs) = hash_tuple h (map (py_hash h) xs)"
| "py_hash h (PBuiltin n) = hash_builtin h n"

text \<open>\<^verbatim>\<open>sep.join(parts)\<close>.\<close>

fun join :: "string \<Rightarrow> string list \<Rightarrow> string" where
  "join sep [] = []"
| "join sep [p] = p"
| "join sep (p # q # ps) = p @ sep @ join sep (q # ps)"

text \<open>Decimal digits of a natural number, most significant first.\<close>

definition digit_char :: "nat \<Rightarrow> char" where
  "digit_char d = ''0123456789abcdef'' ! d"

fun digits :: "nat \<Rightarrow> string" where
  "digits n = (if n < 10 then [digit_char n] else digits (n div 10) @ [digit_char (n mod 10)])"

declare digits.simps [simp del]

definition repr_int :: "int \<Rightarrow> string" where
  "repr_int n = (if n < 0 then ''-'' @ digits (nat (- n)) else digits (nat n))"

text \<open>
  \<^verbatim>\<open>repr\<close> of a string: single quotes, unless the text holds a single quote and no
  double quote; the backslash and the chosen quote are escaped, tab, newline and
  carriage return are written \<^verbatim>\<open>\t\<close>, \<^verbatim>\<open>\n\<close>, \<^verbatim>\<open>\r\<close>, and every other character that
  is not printable as \<^verbatim>\<open>\xhh\<close>. Below 256 the code points that are not printable are the
  control characters (0 to 31 and 127 to 159), the no-break space (160) and the soft
  hyphen (173).
\<close>

definition repr_char :: "char \<Rightarrow> char \<Rightarrow> string" where
  "repr_char q c =
     (if c = CHR 0x5C \<or> c = q then [CHR 0x5C, c]
      else if c = CHR 0x09 then [CHR 0x5C, CHR ''t'']
      else if c = CHR 0x0A then [CHR 0x5C, CHR ''n'']
      else if c = CHR 0x0D then [CHR 0x5C, CHR ''r'']
      else if (of_char c :: nat) < 32 \<or>
              (127 \<le> (of_char c :: nat) \<and> (of_char c :: nat) \<le> 160) \<or>
              (of_char c :: nat) = 173
        then [CHR 0x5C, CHR ''x'', digit_char (of_char c div 16), digit_char (of_char c mod 16)]
      else [c])"

definition repr_str :: "string \<Rightarrow> string" where
  "repr_str s =
     (let q = (if CHR 0x27 \<in> set s \<and> CHR 0x22 \<notin> set s then CHR 0x22 else CHR 0x27)
      in [q] @ concat (map (repr_char q) s) @ [q])"

fun py_repr :: "pyval \<Rightarrow> string" where
  "py_repr PNone = ''None''"
| "py_repr (PBool b) = (if b then ''True'' else ''False'')"
| "py_repr (PInt n) = repr_int n"
| "py_repr (PStr s) = repr_str s"
| "py_repr (PTuple xs) =
     (case xs of [x] \<Rightarrow> ''('' @ py_repr x @ '',)''
      | _ \<Rightarrow> ''('' @ join '', '' (map py_repr xs) @ '')'')"
| "py_repr (PBuiltin n) =
     (if n \<in> set builtin_functions then ''<built-in function '' @ n @ ''>''
      else if n \<in> set builtin_classes then ''<class '' @ [CHR 0x27] @ n @ [CHR 0x27] @ ''>''
      else n)"

text \<open>Truth value of a built-in value, as \<^verbatim>\<open>if v:\<close> tests it.\<close>

fun truthy :: "pyval \<Rightarrow> bool" where
  "truthy PNone = False"
| "truthy (PBool b) = b"
| "truthy (PInt n) = (n \<noteq> 0)"
| "truthy (PStr s) = (s \<noteq> [])"
| "truthy (PTuple xs) = (xs \<noteq> [])"
| "truthy (PBuiltin n) = True"

section \<open>Classes and instances\<close>

text \<open>
  A class object has an identity (a number no other class object has), a name and base
  classes (\<^verbatim>\<open>object\<close> is left implicit); two classes of the same name are two classes.
  An instance knows its class and holds its attributes in a dictionary; class-level data
  attributes are not modelled, so \<^verbatim>\<open>getattr\<close> finds a name in the instance's own
  dictionary or raises \<^verbatim>\<open>AttributeError\<close>.
\<close>

datatype pytype = PyType (tp_id: nat) (tp_name: string) (tp_bases: "pytype list")

record pyinst =
  ob_type :: pytype
  ob_dict :: "string \<rightharpoonup> pyval"

text \<open>An operand of a comparison is an instance of a user class or a built-in value.\<close>

datatype pyobject = Instance pyinst | Value pyval

fun issubclass :: "pytype \<Rightarrow> pytype \<Rightarrow> bool" where
  "issubclass (PyType i n bs) c = (PyType i n bs = c \<or> (\<exists>b \<in> set bs. issubclass b c))"

fun isinstance :: "pyobject \<Rightarrow> pytype \<Rightarrow> bool" where
  "isinstance (Instance x) c = issubclass (ob_type x) c"
| "isinstance (Value v) c = False"

definition getattr :: "pyinst \<Rightarrow> string \<Rightarrow> error + pyval" where
  "getattr obj a = (case ob_dict obj a of None \<Rightarrow> Inl (AttributeError a) | Some v \<Rightarrow> Inr v)"

definition setattr :: "pyinst \<Rightarrow> string \<Rightarrow> pyval \<Rightarrow> pyinst" where
  "setattr obj a v = obj\<lparr>ob_dict := (ob_dict obj)(a \<mapsto> v)\<rparr>"

section \<open>\<^verbatim>\<open>with_cmp\<close>\<close>

text \<open>
  \<^verbatim>\<open>attrs_to_tuple\<close> reads the attributes in the order of \<^verbatim>\<open>attrs\<close>; the first
  attribute the object lacks raises.
\<close>

fun attrs_to_tuple :: "string list \<Rightarrow> pyinst \<Rightarrow> error + pyval list" where
  "attrs_to_tuple [] obj = Inr []"
| "attrs_to_tuple (a # as) obj =
     (case getattr obj a of Inl e \<Rightarrow> Inl e
      | Inr v \<Rightarrow> (case attrs_to_tuple as obj of Inl e \<Rightarrow> Inl e | Inr vs \<Rightarrow> Inr (v # vs)))"

text \<open>A comparison method returns a boolean or the \<^verbatim>\<open>NotImplemented\<close> singleton.\<close>

datatype cmp_result = NotImplemented | Truth bool

text \<open>
  All five tuple comparisons share one shape: the guard
  \<^verbatim>\<open>isinstance(other, self.__class__)\<close>, then the tuple of \<^verbatim>\<open>self\<close>, then the tuple of
  \<^verbatim>\<open>other\<close>, then the operator on the two tuples.
\<close>

definition eq :: "string list \<Rightarrow> pyinst \<Rightarrow> pyobject \<Rightarrow> error + cmp_result" where
  "eq attrs self other =
     (if isinstance other (ob_type self) then
        (case other of
           Instance that \<Rightarrow>
             (case attrs_to_tuple attrs self of Inl e \<Rightarrow> Inl e
              | Inr t \<Rightarrow> (case attrs_to_tuple attrs that of Inl e \<Rightarrow> Inl e
                  | Inr u \<Rightarrow> Inr (Truth (tuple_eq t u))))
         | Value v \<Rightarrow> Inr NotImplemented)
      else Inr NotImplemented)"

definition ne :: "string list \<Rightarrow> pyinst \<Rightarrow> pyobject \<Rightarrow> error + cmp_result" where
  "ne attrs self other =
     (case eq attrs self other of Inl e \<Rightarrow> Inl e
      | Inr result \<Rightarrow>
          (case result of NotImplemented \<Rightarrow> Inr NotImplemented
           | Truth b \<Rightarrow> Inr (Truth (\<not> b))))"

definition ordering :: "ordop \<Rightarrow> string list \<Rightarrow> pyinst \<Rightarrow> pyobject \<Rightarrow> error + cmp_result" where
  "ordering op attrs self other =
     (if isinstance other (ob_type self) then
        (case other of
           Instance that \<Rightarrow>
             (case attrs_to_tuple attrs self of Inl e \<Rightarrow> Inl e
              | Inr t \<Rightarrow> (case attrs_to_tuple attrs that of Inl e \<Rightarrow> Inl e
                  | Inr u \<Rightarrow> (case tuple_ord op t u of Inl e \<Rightarrow> Inl e
                      | Inr b \<Rightarrow> Inr (Truth b))))
         | Value v \<Rightarrow> Inr NotImplemented)
      else Inr NotImplemented)"

definition lt :: "string list \<Rightarrow> pyinst \<Rightarrow> pyobject \<Rightarrow> error + cmp_result" where
  "lt = ordering Lt"

definition le :: "string list \<Rightarrow> pyinst \<Rightarrow> pyobject \<Rightarrow> error + cmp_result" where
  "le = ordering Le"

definition gt :: "string list \<Rightarrow> pyinst \<Rightarrow> pyobject \<Rightarrow> error + cmp_result" where
  "gt = ordering Gt"

definition ge :: "string list \<Rightarrow> pyinst \<Rightarrow> pyobject \<Rightarrow> error + cmp_result" where
  "ge = ordering Ge"

definition hash_fn :: "'h hashing_scheme \<Rightarrow> string list \<Rightarrow> pyinst \<Rightarrow> error + int" where
  "hash_fn h attrs self =
     (case attrs_to_tuple attrs self of Inl e \<Rightarrow> Inl e | Inr t \<Rightarrow> Inr (py_hash h (PTuple t)))"

section \<open>\<^verbatim>\<open>with_repr\<close>\<close>

text \<open>
  The generator \<^verbatim>\<open>a + "=" + repr(getattr(self, a)) for a in attrs\<close>, consumed by
  \<^verbatim>\<open>join\<close>, and the format \<^verbatim>\<open><{0}({1})>\<close> around the class name and the joined items.
\<close>

fun repr_items :: "string list \<Rightarrow> pyinst \<Rightarrow> error + string list" where
  "repr_items [] self = Inr []"
| "repr_items (a # as) self =
     (case getattr self a of Inl e \<Rightarrow> Inl e
      | Inr v \<Rightarrow> (case repr_items as self of Inl e \<Rightarrow> Inl e
          | Inr ps \<Rightarrow> Inr ((a @ ''='' @ py_repr v) # ps)))"

definition repr_fn :: "string list \<Rightarrow> pyinst \<Rightarrow> error + string" where
  "repr_fn attrs self =
     (case repr_items attrs self of Inl e \<Rightarrow> Inl e
      | Inr ps \<Rightarrow> Inr (''<'' @ tp_name (ob_type self) @ ''('' @ join '', '' ps @ '')>''))"


section \<open>Classes as method tables\<close>

text \<open>
  An initializer takes the instance, the positional and the keyword arguments, and
  returns the instance as it leaves it, or raises. The \<^verbatim>\<open>__init__\<close> of a class is
  either written by the user (any such function) or a function object made by
  \<^verbatim>\<open>with_init\<close>.
\<close>

type_synonym initializer = "pyinst \<Rightarrow> pyval list \<Rightarrow> (string \<times> pyval) list \<Rightarrow> error + pyinst"

text \<open>
  The generated function has two kinds of statement, \<^verbatim>\<open>self.a = x\<close> and
  \<^verbatim>\<open>self.__original_init__(x, y, ...)\<close>, and two kinds of parameter after \<^verbatim>\<open>self\<close>:
  \<^verbatim>\<open>p\<close> and \<^verbatim>\<open>p=defaults[k]\<close>, where \<^verbatim>\<open>k\<close> is a name, not a string literal.
\<close>

datatype stmt = AssignSelf string string | CallOriginalInit "string list"

datatype param = Required string | Optional string string

record funcdef =
  fd_params :: "param list"
  fd_body :: "stmt list"

text \<open>A function object: each parameter with the value of its default, if it has one.\<close>

record funcobj =
  fn_params :: "(string \<times> pyval option) list"
  fn_body :: "stmt list"

datatype init_slot = Written initializer | Synthesized funcobj

record pyclass =
  cls_type :: pytype
  cls_init :: init_slot
  cls_original_init :: "init_slot option"
  cls_eq :: "(pyinst \<Rightarrow> pyobject \<Rightarrow> error + cmp_result) option"
  cls_ne :: "(pyinst \<Rightarrow> pyobject \<Rightarrow> error + cmp_result) option"
  cls_lt :: "(pyinst \<Rightarrow> pyobject \<Rightarrow> error + cmp_result) option"
  cls_le :: "(pyinst \<Rightarrow> pyobject \<Rightarrow> error + cmp_result) option"
  cls_gt :: "(pyinst \<Rightarrow> pyobject \<Rightarrow> error + cmp_result) option"
  cls_ge :: "(pyinst \<Rightarrow> pyobject \<Rightarrow> error + cmp_result) option"
  cls_hash :: "(hashing \<Rightarrow> pyinst \<Rightarrow> error + int) option"
  cls_repr :: "(pyinst \<Rightarrow> error + string) option"

text \<open>The \<^verbatim>\<open>wrap\<close> of \<^verbatim>\<open>with_cmp\<close> and of \<^verbatim>\<open>with_repr\<close>.\<close>

definition with_cmp :: "string list \<Rightarrow> pyclass \<Rightarrow> pyclass" where
  "with_cmp attrs cl =
     cl\<lparr>cls_eq := Some (eq attrs), cls_ne := Some (ne attrs), cls_lt := Some (lt attrs),
        cls_le := Some (le attrs), cls_gt := Some (gt attrs), cls_ge := Some (ge attrs),
        cls_hash := Some (\<lambda>h. hash_fn h attrs)\<rparr>"

definition with_repr :: "string list \<Rightarrow> pyclass \<Rightarrow> pyclass" where
  "with_repr attrs cl = cl\<lparr>cls_repr := Some (repr_fn attrs)\<rparr>"

definition make_wrap_init :: "funcobj \<Rightarrow> pyclass \<Rightarrow> pyclass" where
  "make_wrap_init init cl =
     cl\<lparr>cls_original_init := Some (cls_init cl), cls_init := Synthesized init\<rparr>"

section \<open>\<^verbatim>\<open>with_init\<close>: the text it builds\<close>

definition newline :: string where
  "newline = [CHR 0x0A]"

definition args_with_defaults :: "string list \<Rightarrow> (string \<rightharpoonup> pyval) \<Rightarrow> string" where
  "args_with_defaults attrs defaults =
     join '', '' (map (\<lambda>attr. if defaults attr \<noteq> None
                               then attr @ ''=defaults['' @ attr @ '']'' else ''attr'') attrs)"

definition args_joined :: "string list \<Rightarrow> string" where
  "args_joined attrs = join '', '' attrs"

definition assignments :: "string list \<Rightarrow> string" where
  "assignments attrs =
     join (newline @ ''    '') (map (\<lambda>attr. ''self.'' @ attr @ '' = '' @ attr) attrs)"

text \<open>The template after \<^verbatim>\<open>format\<close>.\<close>

definition template :: "string list \<Rightarrow> (string \<rightharpoonup> pyval) \<Rightarrow> string" where
  "template attrs defaults =
     newline @ ''def init(self, '' @ args_with_defaults attrs defaults @ ''):'' @
     newline @ ''    '' @ assignments attrs @
     newline @ ''    self.__original_init__('' @ args_joined attrs @ '')'' @ newline"

text \<open>
  \<^verbatim>\<open>textwrap.dedent\<close>: every line made of spaces and tabs only is emptied; the margin is
  the longest run of spaces and tabs that starts every line which is left non-empty; the
  margin is removed from those lines.
\<close>

fun split_lines :: "string \<Rightarrow> string list" where
  "split_lines [] = [[]]"
| "split_lines (c # cs) =
     (if c = CHR 0x0A then [] # split_lines cs
      else (case split_lines cs of [] \<Rightarrow> [[c]] | l # ls \<Rightarrow> (c # l) # ls))"

definition blank_char :: "char \<Rightarrow> bool" where
  "blank_char c = (c = CHR 0x20 \<or> c = CHR 0x09)"

fun common_prefix :: "string \<Rightarrow> string \<Rightarrow> string" where
  "common_prefix (x # xs) (y # ys) = (if x = y then x # common_prefix xs ys else [])"
| "common_prefix xs ys = []"

definition dedent :: "string \<Rightarrow> string" where
  "dedent text =
     (let ls = map (\<lambda>l. if list_all blank_char l then [] else l) (split_lines text);
          indents = map (takeWhile blank_char) (filter (\<lambda>l. l \<noteq> []) ls);
          margin = (case indents of [] \<Rightarrow> [] | i # is \<Rightarrow> foldl common_prefix i is)
      in join newline (map (\<lambda>l. if l = [] then [] else drop (length margin) l) ls))"

definition source :: "string list \<Rightarrow> (string \<rightharpoonup> pyval) \<Rightarrow> string" where
  "source attrs defaults = dedent (template attrs defaults)"

text \<open>The function definition this text is, and the text of a function definition.\<close>

definition init_def :: "string list \<Rightarrow> (string \<rightharpoonup> pyval) \<Rightarrow> funcdef" where
  "init_def attrs defaults =
     \<lparr>fd_params = map (\<lambda>attr. if defaults attr \<noteq> None
                               then Optional attr attr else Required ''attr'') attrs,
      fd_body = map (\<lambda>attr. AssignSelf attr attr) attrs @ [CallOriginalInit attrs]\<rparr>"

fun render_param :: "param \<Rightarrow> string" where
  "render_param (Required p) = p"
| "render_param (Optional p k) = p @ ''=defaults['' @ k @ '']''"

fun render_stmt :: "stmt \<Rightarrow> string" where
  "render_stmt (AssignSelf a x) = ''self.'' @ a @ '' = '' @ x"
| "render_stmt (CallOriginalInit xs) = ''self.__original_init__('' @ join '', '' xs @ '')''"

definition render_def :: "funcdef \<Rightarrow> string" where
  "render_def fd =
     newline @ ''def init(self, '' @ join '', '' (map render_param (fd_params fd)) @ ''):'' @
     newline @ ''    '' @ join (newline @ ''    '') (map render_stmt (fd_body fd)) @ newline"

section \<open>\<^verbatim>\<open>with_init\<close>: executing the definition\<close>

text \<open>
  The text is the function definition above when every attribute name is an identifier:
  ASCII letters, digits and underscores, not starting with a digit. Any other string makes
  another text (\<^verbatim>\<open>self.a.b = a.b\<close> for the name \<^verbatim>\<open>a.b\<close>, say), which the embedding does not
  follow: \<^verbatim>\<open>with_init\<close> answers \<open>Unmodelled\<close> for it.
\<close>

definition letters :: string where
  "letters = ''abcdefghijklmnopqrstuvwxyzABCDEFGHIJKLMNOPQRSTUVWXYZ_''"

definition is_identifier :: "string \<Rightarrow> bool" where
  "is_identifier x =
     (case x of [] \<Rightarrow> False
      | c # cs \<Rightarrow> c \<in> set letters \<and> list_all (\<lambda>d. d \<in> set (letters @ ''0123456789'')) cs)"

text \<open>
  The names the compiler refuses as a parameter, as a variable or as the attribute of an
  assignment.
\<close>

definition reserved_words :: "string list" where
  "reserved_words =
     [''False'', ''None'', ''True'', ''__debug__'', ''and'', ''as'', ''assert'', ''async'',
      ''await'', ''break'', ''class'', ''continue'', ''def'', ''del'', ''elif'', ''else'',
      ''except'', ''finally'', ''for'', ''from'', ''global'', ''if'', ''import'', ''in'',
      ''is'', ''lambda'', ''nonlocal'', ''not'', ''or'', ''pass'', ''raise'', ''return'',
      ''try'', ''while'', ''with'', ''yield'']"

text \<open>
  A name that is not a local variable is looked up in the globals of the generated code,
  the namespace \<^verbatim>\<open>ns\<close>, and then in the builtins. \<^verbatim>\<open>ns\<close> holds \<^verbatim>\<open>defaults\<close> and, once
  \<^verbatim>\<open>exec\<close> has run, \<^verbatim>\<open>__builtins__\<close>: two dictionaries. The builtins bind the functions,
  classes and strings of \<open>builtins\<close>, and a few objects of other kinds, named in
  \<open>foreign_names\<close>; the dictionaries and these objects are not values of the universe.
\<close>

definition foreign_names :: "string list" where
  "foreign_names =
     [''__doc__'', ''__loader__'', ''__spec__'', ''copyright'', ''credits'', ''exit'',
      ''help'', ''license'', ''quit'']"

datatype binding = Known pyval | Dictionary | Foreign | Unbound

definition global_binding :: "string \<Rightarrow> binding" where
  "global_binding x =
     (if x = ''defaults'' \<or> x = ''__builtins__'' then Dictionary
      else if x \<in> set foreign_names then Foreign
      else (case builtins x of Some v \<Rightarrow> Known v | None \<Rightarrow> Unbound))"

text \<open>
  The value of a name: a local variable first, then the globals and the builtins. A name
  nothing binds raises \<^verbatim>\<open>NameError\<close>; a name bound to an object outside the universe is
  where the embedding stops (\<open>Unmodelled\<close>).
\<close>

definition lookup_name :: "(string \<times> pyval) list \<Rightarrow> string \<Rightarrow> error + pyval" where
  "lookup_name scope x =
     (case map_of scope x of
        Some v \<Rightarrow> Inr v
      | None \<Rightarrow> (case global_binding x of
          Known v \<Rightarrow> Inr v
        | Unbound \<Rightarrow> Inl (NameError x)
        | Dictionary \<Rightarrow> Inl (Unmodelled x)
        | Foreign \<Rightarrow> Inl (Unmodelled x)))"

text \<open>
  \<^verbatim>\<open>defaults[key]\<close>: the keys of \<^verbatim>\<open>defaults\<close> are strings, and every value of the
  universe can be hashed, so any other key is absent. In \<^verbatim>\<open>defaults[k]\<close> the key is the
  value of the name \<^verbatim>\<open>k\<close>; a dictionary as key cannot be hashed and raises \<^verbatim>\<open>TypeError\<close>.
\<close>

definition subscript :: "(string \<rightharpoonup> pyval) \<Rightarrow> pyval \<Rightarrow> error + pyval" where
  "subscript d key =
     (case key of
        PStr s \<Rightarrow> (case d s of None \<Rightarrow> Inl KeyError | Some v \<Rightarrow> Inr v)
      | _ \<Rightarrow> Inl KeyError)"

definition eval_default ::
  "(string \<rightharpoonup> pyval) \<Rightarrow> (string \<times> pyval) list \<Rightarrow> string \<Rightarrow> error + pyval" where
  "eval_default defaults locs k =
     (case map_of locs k of
        Some key \<Rightarrow> subscript defaults key
      | None \<Rightarrow> (case global_binding k of
          Known key \<Rightarrow> subscript defaults key
        | Unbound \<Rightarrow> Inl (NameError k)
        | Dictionary \<Rightarrow> Inl TypeError
        | Foreign \<Rightarrow> Inl (Unmodelled k)))"

text \<open>
  Executing a \<^verbatim>\<open>def\<close> statement. The compiler rejects a keyword used as a name, a
  repeated parameter name and a parameter without default after one with a default. Then
  the default expressions are evaluated from left to right, in the scope the statement
  runs in (\<^verbatim>\<open>locs\<close>, empty when \<^verbatim>\<open>exec\<close> starts, then \<^verbatim>\<open>ns\<close> and the builtins).
\<close>

fun param_name :: "param \<Rightarrow> string" where
  "param_name (Required p) = p"
| "param_name (Optional p k) = p"

fun required_first :: "param list \<Rightarrow> bool" where
  "required_first [] = True"
| "required_first (Required p # ps) = required_first ps"
| "required_first (Optional p k # ps) = list_all (\<lambda>q. case q of Required r \<Rightarrow> False | Optional r j \<Rightarrow> True) ps"

fun names_of_param :: "param \<Rightarrow> string list" where
  "names_of_param (Required p) = [p]"
| "names_of_param (Optional p k) = [p, k]"

fun names_of_stmt :: "stmt \<Rightarrow> string list" where
  "names_of_stmt (AssignSelf a x) = [a, x]"
| "names_of_stmt (CallOriginalInit xs) = xs"

definition compiles :: "funcdef \<Rightarrow> bool" where
  "compiles fd =
     (list_all (\<lambda>x. x \<notin> set reserved_words)
        (concat (map names_of_param (fd_params fd)) @ concat (map names_of_stmt (fd_body fd))) \<and>
      distinct (''self'' # map param_name (fd_params fd)) \<and> required_first (fd_params fd))"

fun eval_params ::
  "(string \<rightharpoonup> pyval) \<Rightarrow> (string \<times> pyval) list \<Rightarrow> param list \<Rightarrow> error + (string \<times> pyval option) list" where
  "eval_params defaults locs [] = Inr []"
| "eval_params defaults locs (Required p # ps) =
     (case eval_params defaults locs ps of Inl e \<Rightarrow> Inl e | Inr r \<Rightarrow> Inr ((p, None) # r))"
| "eval_params defaults locs (Optional p k # ps) =
     (case eval_default defaults locs k of Inl e \<Rightarrow> Inl e
      | Inr v \<Rightarrow> (case eval_params defaults locs ps of Inl e \<Rightarrow> Inl e
          | Inr r \<Rightarrow> Inr ((p, Some v) # r)))"

definition exec_def ::
  "(string \<rightharpoonup> pyval) \<Rightarrow> (string \<times> pyval) list \<Rightarrow> funcdef \<Rightarrow> error + funcobj" where
  "exec_def defaults locs fd =
     (if \<not> compiles fd then Inl SyntaxError
      else (case eval_params defaults locs (fd_params fd) of Inl e \<Rightarrow> Inl e
        | Inr ps \<Rightarrow> Inr \<lparr>fn_params = ps, fn_body = fd_body fd\<rparr>))"

definition with_init ::
  "string list \<Rightarrow> (string \<rightharpoonup> pyval) option \<Rightarrow> error + (pyclass \<Rightarrow> pyclass)" where
  "with_init attrs defaults_arg =
     (let defaults = (case defaults_arg of None \<Rightarrow> Map.empty | Some d \<Rightarrow> d) in
      (case filter (\<lambda>a. \<not> is_identifier a) attrs of
         a # rest \<Rightarrow> Inl (Unmodelled a)
       | [] \<Rightarrow> (case exec_def defaults [] (init_def attrs defaults) of Inl e \<Rightarrow> Inl e
           | Inr init \<Rightarrow> Inr (make_wrap_init init))))"

section \<open>Calling the generated function\<close>

text \<open>
  Binding the arguments of a call to the parameters after \<^verbatim>\<open>self\<close> (which the instance
  fills): positional arguments fill the parameters from the left; each keyword argument
  must name a parameter that is not filled yet; then a surplus of positional arguments
  is an error; then every parameter still empty takes its default, and the ones without
  default are reported together.
\<close>

fun check_keywords :: "string list \<Rightarrow> string list \<Rightarrow> (string \<times> pyval) list \<Rightarrow> error option" where
  "check_keywords names filled [] = None"
| "check_keywords names filled ((k, v) # kws) =
     (if k \<notin> set names then Some (UnexpectedKeyword k)
      else if k \<in> set filled then Some (MultipleValues k)
      else check_keywords names (k # filled) kws)"

definition bind_args ::
  "(string \<times> pyval option) list \<Rightarrow> pyval list \<Rightarrow> (string \<times> pyval) list \<Rightarrow> error + (string \<times> pyval) list" where
  "bind_args params args kwargs =
     (let names = map fst params;
          positional = zip names args;
          given = positional @ kwargs;
          missing = map fst (filter (\<lambda>(p, d). map_of given p = None \<and> d = None) params)
      in (case check_keywords (''self'' # names) (''self'' # map fst positional) kwargs of
            Some e \<Rightarrow> Inl e
          | None \<Rightarrow>
              if length params < length args then Inl TooManyPositional
              else if missing \<noteq> [] then Inl (MissingArguments missing)
              else Inr (List.map_filter
                     (\<lambda>(p, d). map_option (Pair p)
                        (case map_of given p of Some v \<Rightarrow> Some v | None \<Rightarrow> d)) params)))"

text \<open>
  Running the body. The local variables are the parameters; \<^verbatim>\<open>self\<close> is bound to the
  instance, which is not a value of the universe (an instance stored in itself).
  \<^verbatim>\<open>self.__original_init__\<close> is looked up on the instance first (an attribute of that
  name, being a plain value, cannot be called) and then on the class; \<open>orig\<close> is what the
  class attribute does when called with the instance and positional arguments.
\<close>

definition lookup_var :: "(string \<times> pyval) list \<Rightarrow> string \<Rightarrow> error + pyval" where
  "lookup_var locals x = (if x = ''self'' then Inl (Unmodelled x) else lookup_name locals x)"

fun lookup_vars :: "(string \<times> pyval) list \<Rightarrow> string list \<Rightarrow> error + pyval list" where
  "lookup_vars locals [] = Inr []"
| "lookup_vars locals (x # xs) =
     (case lookup_var locals x of Inl e \<Rightarrow> Inl e
      | Inr v \<Rightarrow> (case lookup_vars locals xs of Inl e \<Rightarrow> Inl e | Inr vs \<Rightarrow> Inr (v # vs)))"

type_synonym bound_method = "pyinst \<Rightarrow> pyval list \<Rightarrow> error + pyinst"

definition lookup_original :: "bound_method option \<Rightarrow> pyinst \<Rightarrow> error + bound_method" where
  "lookup_original orig self =
     (case ob_dict self ''__original_init__'' of
        Some v \<Rightarrow> Inr (\<lambda>s vs. Inl TypeError)
      | None \<Rightarrow> (case orig of None \<Rightarrow> Inl (AttributeError ''__original_init__'')
          | Some f \<Rightarrow> Inr f))"

fun exec_stmts ::
  "bound_method option \<Rightarrow> (string \<times> pyval) list \<Rightarrow> stmt list \<Rightarrow> pyinst \<Rightarrow> error + pyinst" where
  "exec_stmts orig locals [] self = Inr self"
| "exec_stmts orig locals (AssignSelf a x # ss) self =
     (case lookup_var locals x of Inl e \<Rightarrow> Inl e
      | Inr v \<Rightarrow> exec_stmts orig locals ss (setattr self a v))"
| "exec_stmts orig locals (CallOriginalInit xs # ss) self =
     (case lookup_original orig self of Inl e \<Rightarrow> Inl e
      | Inr f \<Rightarrow> (case lookup_vars locals xs of Inl e \<Rightarrow> Inl e
          | Inr vs \<Rightarrow> (case f self vs of Inl e \<Rightarrow> Inl e
              | Inr self' \<Rightarrow> exec_stmts orig locals ss self')))"

definition call_function ::
  "funcobj \<Rightarrow> bound_method option \<Rightarrow> pyinst \<Rightarrow> pyval list \<Rightarrow> (string \<times> pyval) list \<Rightarrow> error + pyinst" where
  "call_function fn orig self args kwargs =
     (case bind_args (fn_params fn) args kwargs of Inl e \<Rightarrow> Inl e
      | Inr locals \<Rightarrow> exec_stmts orig locals (fn_body fn) self)"

text \<open>
  What \<^verbatim>\<open>__original_init__\<close> of a class does. When it is itself a generated function (the
  class was wrapped twice), that function calls \<^verbatim>\<open>self.__original_init__\<close>, which is
  itself again, with as many arguments as it has parameters: once it gets that far it
  recurses until the interpreter raises \<^verbatim>\<open>RecursionError\<close>.
\<close>

definition original_init :: "pyclass \<Rightarrow> bound_method option" where
  "original_init cl =
     (case cls_original_init cl of
        None \<Rightarrow> None
      | Some (Written f) \<Rightarrow> Some (\<lambda>self vs. f self vs [])
      | Some (Synthesized fn) \<Rightarrow>
          Some (\<lambda>self vs. call_function fn (Some (\<lambda>s ws. Inl RecursionError)) self vs []))"

definition call_init :: "pyclass \<Rightarrow> initializer" where
  "call_init cl self args kwargs =
     (case cls_init cl of
        Written f \<Rightarrow> f self args kwargs
      | Synthesized fn \<Rightarrow> call_function fn (original_init cl) self args kwargs)"

text \<open>Calling the class: a fresh instance with an empty dictionary, then \<^verbatim>\<open>__init__\<close>.\<close>

definition construct :: "pyclass \<Rightarrow> pyval list \<Rightarrow> (string \<times> pyval) list \<Rightarrow> error + pyinst" where
  "construct cl args kwargs = call_init cl \<lparr>ob_type = cls_type cl, ob_dict = Map.empty\<rparr> args kwargs"

section \<open>\<^verbatim>\<open>attributes\<close>\<close>

text \<open>
  \<^verbatim>\<open>create_init is True\<close> compares identities: among the values only the boolean
  \<^verbatim>\<open>True\<close> is that object.
\<close>

definition attributes ::
  "string list \<Rightarrow> (string \<rightharpoonup> pyval) option \<Rightarrow> pyval \<Rightarrow> pyclass \<Rightarrow> error + pyclass" where
  "attributes attrs defaults create_init cl0 =
     (let cl = with_cmp attrs (with_repr attrs cl0) in
      if create_init = PBool True then
        (case with_init attrs defaults of Inl e \<Rightarrow> Inl e | Inr wrap \<Rightarrow> Inr (wrap cl))
      else Inr cl)"


section \<open>Classes as the \<^verbatim>\<open>class\<close> statement leaves them\<close>

text \<open>
  The initializer a class inherits from \<^verbatim>\<open>object\<close> accepts no argument besides the
  instance. A new class has its identity, its name, its bases and its initializer, and
  none of the methods the decorators attach.
\<close>

definition object_init :: initializer where
  "object_init self args kwargs = (if args = [] \<and> kwargs = [] then Inr self else Inl TypeError)"

definition new_class :: "nat \<Rightarrow> string \<Rightarrow> pytype list \<Rightarrow> initializer \<Rightarrow> pyclass" where
  "new_class ident name bases init =
     \<lparr>cls_type = PyType ident name bases, cls_init = Written init, cls_original_init = None,
      cls_eq = None, cls_ne = None, cls_lt = None, cls_le = None, cls_gt = None,
      cls_ge = None, cls_hash = None, cls_repr = None\<rparr>"

definition synthesized :: "init_slot \<Rightarrow> bool" where
  "synthesized s = (case s of Written f \<Rightarrow> False | Synthesized fn \<Rightarrow> True)"

text \<open>
  For the proofs: the value with every boolean replaced by the integer it equals. Two
  values are equal for \<^verbatim>\<open>==\<close> exactly when these coincide.
\<close>

fun norm :: "pyval \<Rightarrow> pyval" where
  "norm (PBool b) = PInt (if b then 1 else 0)"
| "norm (PTuple xs) = PTuple (map norm xs)"
| "norm v = v"

section \<open>Properties of the constructor synthesizer\<close>

lemma is_identifier_examples:
  "is_identifier ''a''" "is_identifier ''b''" "is_identifier ''attr''" "is_identifier ''id''"
  by (simp_all add: is_identifier_def letters_def)

lemma global_binding_examples:
  "global_binding ''a'' = Unbound" "global_binding ''b'' = Unbound"
  "global_binding ''id'' = Known (PBuiltin ''id'')"
  by (simp_all add: global_binding_def foreign_names_def builtins_def builtin_functions_def
      builtin_classes_def)

lemma compiles_examples:
  "compiles (init_def [''a'', ''b''] [''b'' \<mapsto> PInt 0])"
  "\<not> compiles (init_def [''a'', ''b''] Map.empty)"
  "compiles (init_def [''a''] Map.empty)"
  "compiles (init_def [''id''] Map.empty)"
  "compiles (init_def [''attr''] Map.empty)"
  by (simp_all add: compiles_def init_def_def reserved_words_def)

lemma init_def_examples:
  "init_def [''a'', ''b''] [''b'' \<mapsto> PInt 0] =
     \<lparr>fd_params = [Required ''attr'', Optional ''b'' ''b''],
      fd_body = [AssignSelf ''a'' ''a'', AssignSelf ''b'' ''b'', CallOriginalInit [''a'', ''b'']]\<rparr>"
  "init_def [''a''] Map.empty =
     \<lparr>fd_params = [Required ''attr''],
      fd_body = [AssignSelf ''a'' ''a'', CallOriginalInit [''a'']]\<rparr>"
  "init_def [''id''] Map.empty =
     \<lparr>fd_params = [Required ''attr''],
      fd_body = [AssignSelf ''id'' ''id'', CallOriginalInit [''id'']]\<rparr>"
  "init_def [''attr''] Map.empty =
     \<lparr>fd_params = [Required ''attr''],
      fd_body = [AssignSelf ''attr'' ''attr'', CallOriginalInit [''attr'']]\<rparr>"
  by (simp_all add: init_def_def)

lemma exec_def_examples:
  "exec_def [''b'' \<mapsto> PInt 0] [] (init_def [''a'', ''b''] [''b'' \<mapsto> PInt 0]) = Inl (NameError ''b'')"
  "exec_def Map.empty [] (init_def [''a'', ''b''] Map.empty) = Inl SyntaxError"
  "exec_def Map.empty [] (init_def [''a''] Map.empty) =
     Inr \<lparr>fn_params = [(''attr'', None)],
          fn_body = [AssignSelf ''a'' ''a'', CallOriginalInit [''a'']]\<rparr>"
  "exec_def Map.empty [] (init_def [''id''] Map.empty) =
     Inr \<lparr>fn_params = [(''attr'', None)],
          fn_body = [AssignSelf ''id'' ''id'', CallOriginalInit [''id'']]\<rparr>"
  "exec_def Map.empty [] (init_def [''attr''] Map.empty) =
     Inr \<lparr>fn_params = [(''attr'', None)],
          fn_body = [AssignSelf ''attr'' ''attr'', CallOriginalInit [''attr'']]\<rparr>"
proof -
  show "exec_def [''b'' \<mapsto> PInt 0] [] (init_def [''a'', ''b''] [''b'' \<mapsto> PInt 0]) = Inl (NameError ''b'')"
    unfolding exec_def_def using compiles_examples(1)
    by (simp add: init_def_examples eval_default_def global_binding_examples)
  show "exec_def Map.empty [] (init_def [''a'', ''b''] Map.empty) = Inl SyntaxError"
    unfolding exec_def_def using compiles_examples(2) by simp
  show "exec_def Map.empty [] (init_def [''a''] Map.empty) =
     Inr \<lparr>fn_params = [(''attr'', None)],
          fn_body = [AssignSelf ''a'' ''a'', CallOriginalInit [''a'']]\<rparr>"
    unfolding exec_def_def using compiles_examples(3) by (simp add: init_def_examples)
  show "exec_def Map.empty [] (init_def [''id''] Map.empty) =
     Inr \<lparr>fn_params = [(''attr'', None)],
          fn_body = [AssignSelf ''id'' ''id'', CallOriginalInit [''id'']]\<rparr>"
    unfolding exec_def_def using compiles_examples(4) by (simp add: init_def_examples)
  show "exec_def Map.empty [] (init_def [''attr''] Map.empty) =
     Inr \<lparr>fn_params = [(''attr'', None)],
          fn_body = [AssignSelf ''attr'' ''attr'', CallOriginalInit [''attr'']]\<rparr>"
    unfolding exec_def_def using compiles_examples(5) by (simp add: init_def_examples)
qed

lemma with_init_examples:
  "with_init [''a'', ''b''] (Some [''b'' \<mapsto> PInt 0]) = Inl (NameError ''b'')"
  "with_init [''a'', ''b''] None = Inl SyntaxError"
  "with_init [''a''] None =
     Inr (make_wrap_init \<lparr>fn_params = [(''attr'', None)],
          fn_body = [AssignSelf ''a'' ''a'', CallOriginalInit [''a'']]\<rparr>)"
  "with_init [''id''] None =
     Inr (make_wrap_init \<lparr>fn_params = [(''attr'', None)],
          fn_body = [AssignSelf ''id'' ''id'', CallOriginalInit [''id'']]\<rparr>)"
  "with_init [''attr''] None =
     Inr (make_wrap_init \<lparr>fn_params = [(''attr'', None)],
          fn_body = [AssignSelf ''attr'' ''attr'', CallOriginalInit [''attr'']]\<rparr>)"
  by (simp_all add: with_init_def is_identifier_examples exec_def_examples)

text \<open>
  The template is the text of the function definition the embedding executes. With no
  attribute at all the template has one more line, of indentation only, which
  \<^verbatim>\<open>dedent\<close> empties.
\<close>

lemma join_snoc: "xs \<noteq> [] \<Longrightarrow> join sep (xs @ [y]) = join sep xs @ sep @ y"
  by (induction sep xs rule: join.induct) simp_all

lemma template_is_init_def:
  "attrs \<noteq> [] \<Longrightarrow> template attrs defaults = render_def (init_def attrs defaults)"
proof -
  have params: "map render_param (fd_params (init_def attrs defaults)) =
      map (\<lambda>attr. if defaults attr \<noteq> None then attr @ ''=defaults['' @ attr @ '']'' else ''attr'') attrs"
    by (simp add: init_def_def o_def if_distrib cong: if_cong)
  have body: "map render_stmt (fd_body (init_def attrs defaults)) =
      map (\<lambda>attr. ''self.'' @ attr @ '' = '' @ attr) attrs @
      [''self.__original_init__('' @ join '', '' attrs @ '')'']"
    by (simp add: init_def_def o_def)
  show "attrs \<noteq> [] \<Longrightarrow> template attrs defaults = render_def (init_def attrs defaults)"
    by (simp add: template_def render_def_def params body join_snoc args_with_defaults_def
        assignments_def args_joined_def)
qed

lemma source_no_attributes:
  "source [] defaults =
     newline @ ''def init(self, ):'' @ newline @
     newline @ ''    self.__original_init__()'' @ newline"
  "dedent (render_def (init_def [] defaults)) =
     newline @ ''def init(self, ):'' @
     newline @ ''    self.__original_init__()'' @ newline"
  by (simp_all add: source_def template_def dedent_def args_with_defaults_def assignments_def
      args_joined_def render_def_def init_def_def newline_def blank_char_def)

text \<open>
  Claim C1: with the attributes \<^verbatim>\<open>[a, b]\<close> and the defaults \<^verbatim>\<open>{b: 0}\<close>, a call
  \<^verbatim>\<open>make(a=5)\<close> should give an instance with \<^verbatim>\<open>a=5\<close> and \<^verbatim>\<open>b=0\<close>. The code never gets
  that far. The text it builds names the required parameter \<^verbatim>\<open>attr\<close> instead of \<^verbatim>\<open>a\<close>,
  and writes the default of \<^verbatim>\<open>b\<close> as \<^verbatim>\<open>defaults[b]\<close>, a subscript by the variable
  \<^verbatim>\<open>b\<close>; executing the \<^verbatim>\<open>def\<close> statement evaluates that default and raises
  \<^verbatim>\<open>NameError\<close> for \<^verbatim>\<open>b\<close>, so \<^verbatim>\<open>with_init\<close> itself fails and no constructor exists.
\<close>

theorem with_init_example_raises:
  "source [''a'', ''b''] [''b'' \<mapsto> PInt 0] =
     newline @ ''def init(self, attr, b=defaults[b]):'' @
     newline @ ''    self.a = a'' @
     newline @ ''    self.b = b'' @
     newline @ ''    self.__original_init__(a, b)'' @ newline
   \<and> with_init [''a'', ''b''] (Some [''b'' \<mapsto> PInt 0]) = Inl (NameError ''b'')"
proof
  show "source [''a'', ''b''] [''b'' \<mapsto> PInt 0] =
     newline @ ''def init(self, attr, b=defaults[b]):'' @
     newline @ ''    self.a = a'' @
     newline @ ''    self.b = b'' @
     newline @ ''    self.__original_init__(a, b)'' @ newline"
    by (simp add: source_def template_def dedent_def args_with_defaults_def assignments_def
        args_joined_def newline_def blank_char_def)
  show "with_init [''a'', ''b''] (Some [''b'' \<mapsto> PInt 0]) = Inl (NameError ''b'')"
    by (rule with_init_examples)
qed

text \<open>
  Claim C6: omitting a required attribute should fail with an error that names the
  omitted attribute, and \<^verbatim>\<open>make()\<close> in the example with \<^verbatim>\<open>[a, b]\<close> and \<^verbatim>\<open>{b: 0}\<close> should
  name \<^verbatim>\<open>a\<close>. In the code every required parameter is called \<^verbatim>\<open>attr\<close>, whatever the
  attribute: with the single required attribute \<^verbatim>\<open>a\<close>, the call \<^verbatim>\<open>make()\<close> reports the
  missing argument \<^verbatim>\<open>attr\<close>. In the example of the claim \<^verbatim>\<open>with_init\<close> has already
  raised \<^verbatim>\<open>NameError\<close> for \<^verbatim>\<open>b\<close> before any call can be made.
\<close>

theorem missing_required_names_attr:
  "(case with_init [''a''] None of Inl e \<Rightarrow> Inl e | Inr wrap \<Rightarrow> construct (wrap cl) [] [])
     = Inl (MissingArguments [''attr''])
   \<and> (case with_init [''a'', ''b''] (Some [''b'' \<mapsto> PInt 0]) of Inl e \<Rightarrow> Inl e
        | Inr wrap \<Rightarrow> construct (wrap cl) [] [])
     = Inl (NameError ''b'')"
  by (simp add: with_init_examples construct_def call_init_def make_wrap_init_def
      call_function_def bind_args_def)

text \<open>
  Claim C3: in every construction call that succeeds, the constructor should assign each
  attribute from its resolved value (the caller's argument, or else the default) and
  then pass those values, in order, to the base initializer. The generated body reads the
  variable named like the attribute, while the parameter that receives the caller's
  argument is called \<^verbatim>\<open>attr\<close>. For the attribute \<^verbatim>\<open>id\<close> the variable \<^verbatim>\<open>id\<close> is the
  built-in function: \<^verbatim>\<open>Type(5)\<close> succeeds, stores the function under \<^verbatim>\<open>id\<close> and passes
  the function, not 5, to the base initializer (which here records what it receives
  under \<^verbatim>\<open>seen\<close>). With two ordinary required attributes both parameters are called
  \<^verbatim>\<open>attr\<close> and the definition does not compile, so no call can succeed at all.
\<close>

theorem builtin_name_shadows_argument:
  "(case with_init [''id''] None of Inl e \<Rightarrow> Inl e
    | Inr wrap \<Rightarrow>
        construct
          (wrap (new_class 0 ''Type'' []
             (\<lambda>self args kwargs. case args of
                 [v] \<Rightarrow> Inr (setattr self ''seen'' v)
               | _ \<Rightarrow> Inl TypeError)))
          [PInt 5] [])
     = Inr \<lparr>ob_type = PyType 0 ''Type'' [],
            ob_dict = [''id'' \<mapsto> PBuiltin ''id'', ''seen'' \<mapsto> PBuiltin ''id'']\<rparr>
   \<and> with_init [''a'', ''b''] None = Inl SyntaxError"
  by (simp add: with_init_examples construct_def call_init_def
      make_wrap_init_def new_class_def original_init_def call_function_def bind_args_def
      List.map_filter_def lookup_var_def lookup_name_def global_binding_examples
      lookup_original_def setattr_def)

section \<open>Properties of the formatter\<close>

lemma repr_items_values:
  "attrs_to_tuple attrs self = Inr vals \<Longrightarrow>
   repr_items attrs self = Inr (map (\<lambda>(a, v). a @ ''='' @ py_repr v) (zip attrs vals))"
  by (induction attrs arbitrary: vals) (auto split: sum.splits)

text \<open>
  Claim C8, as stated: the formatter produces exactly \<^verbatim>\<open>TypeName(attr1=value1, ...)\<close>, and
  \<^verbatim>\<open>Type(a=5, b=0)\<close> for the instance of \<^verbatim>\<open>Type\<close> with \<^verbatim>\<open>a=5\<close> and \<^verbatim>\<open>b=0\<close>. It does
  not: the format string puts the text between angle brackets.
\<close>

theorem repr_fn_no_plain_form:
  "repr_fn [''a'', ''b'']
     \<lparr>ob_type = PyType 0 ''Type'' [], ob_dict = [''a'' \<mapsto> PInt 5, ''b'' \<mapsto> PInt 0]\<rparr>
   \<noteq> Inr ''Type(a=5, b=0)''"
  by (simp add: repr_fn_def getattr_def repr_int_def digits.simps digit_char_def)

text \<open>
  Claim C8, amended: for an instance that has every attribute of \<^verbatim>\<open>attrs\<close>, the formatter
  produces exactly \<^verbatim>\<open><TypeName(attr1=value1, attr2=value2, ...)>\<close>, the class name and
  the items \<^verbatim>\<open>name=repr(value)\<close> in the order of \<^verbatim>\<open>attrs\<close>, separated by a comma and a
  space, the whole between angle brackets.
\<close>

theorem repr_fn_format:
  "attrs_to_tuple attrs self = Inr vals \<Longrightarrow>
   repr_fn attrs self =
     Inr (''<'' @ tp_name (ob_type self) @ ''('' @
          join '', '' (map (\<lambda>(a, v). a @ ''='' @ py_repr v) (zip attrs vals)) @ '')>'')"
  by (simp add: repr_fn_def repr_items_values)

theorem repr_fn_format_example:
  "repr_fn [''a'', ''b'']
     \<lparr>ob_type = PyType 0 ''Type'' [], ob_dict = [''a'' \<mapsto> PInt 5, ''b'' \<mapsto> PInt 0]\<rparr>
   = Inr ''<Type(a=5, b=0)>''"
  using repr_fn_format [of "[''a'', ''b'']"
      "\<lparr>ob_type = PyType 0 ''Type'' [], ob_dict = [''a'' \<mapsto> PInt 5, ''b'' \<mapsto> PInt 0]\<rparr>"
      "[PInt 5, PInt 0]"]
  by (simp add: getattr_def repr_int_def digits.simps digit_char_def)


section \<open>Equality, order and hash of built-in values\<close>

lemma tuple_eq_all2: "tuple_eq xs ys = list_all2 py_eq xs ys"
  by (induction xs arbitrary: ys) (auto split: list.splits)

lemma norm_eq_simps:
  "as_int b = Some n \<longleftrightarrow> norm b = PInt n"
  "PInt n = norm b \<longleftrightarrow> norm b = PInt n"
  "PNone = norm b \<longleftrightarrow> b = PNone"
  "PStr s = norm b \<longleftrightarrow> b = PStr s"
  "PBuiltin f = norm b \<longleftrightarrow> b = PBuiltin f"
  by (cases b; auto)+

lemma py_eq_norm: "py_eq a b \<longleftrightarrow> norm a = norm b"
  and tuple_eq_norm: "tuple_eq xs ys \<longleftrightarrow> map norm xs = map norm ys"
  by (induction a b and xs ys rule: py_eq_tuple_eq.induct)
     (auto simp: norm_eq_simps split: pyval.splits list.splits)

lemma py_hash_norm: "py_hash h (norm a) = py_hash h a"
  by (induction a) (auto cong: map_cong)

lemma py_eq_hash: "py_eq a b \<Longrightarrow> py_hash h a = py_hash h b"
  by (metis py_eq_norm py_hash_norm)

lemma py_eq_refl: "py_eq a a" by (simp add: py_eq_norm)

lemma py_eq_trans: "py_eq a b \<Longrightarrow> py_eq b c \<Longrightarrow> py_eq a c" by (simp add: py_eq_norm)

lemma as_int_norm: "as_int (norm b) = as_int b"
  by (cases b) auto

lemma norm_norm: "norm (norm a) = norm a"
  by (induction a) auto

lemma py_eq_norm_args: "py_eq (norm a) (norm b) = py_eq a b"
  by (simp add: py_eq_norm norm_norm)

lemma py_ord_norm: "py_ord op (norm a) (norm b) = py_ord op a b"
  and tuple_ord_norm: "tuple_ord op (map norm xs) (map norm ys) = tuple_ord op xs ys"
  by (induction op a b and op xs ys rule: py_ord_tuple_ord.induct)
     (auto simp: as_int_norm py_eq_norm_args split: pyval.splits list.splits option.splits)

lemma py_ord_cong_eq:
  "py_eq a a' \<Longrightarrow> py_eq b b' \<Longrightarrow> py_ord op a b = py_ord op a' b'"
  by (metis py_eq_norm py_ord_norm)

lemma lt_not_eq: "py_ord Lt a b = Inr True \<Longrightarrow> \<not> py_eq a b"
  and tuple_lt_not_eq: "tuple_ord Lt xs ys = Inr True \<Longrightarrow> \<not> tuple_eq xs ys"
  by (induction Lt a b and Lt xs ys rule: py_ord_tuple_ord.induct)
     (auto simp: ord_holds_def split: pyval.splits list.splits option.splits if_splits elim: as_int.elims)

lemma tuple_lt_trans_aux:
  assumes elem: "\<And>x b c. x \<in> set xs \<Longrightarrow> py_ord Lt x b = Inr True \<Longrightarrow>
                   py_ord Lt b c = Inr True \<Longrightarrow> py_ord Lt x c = Inr True"
    and xy: "tuple_ord Lt xs ys = Inr True"
    and yz: "tuple_ord Lt ys zs = Inr True"
  shows "tuple_ord Lt xs zs = Inr True"
  using assms
proof (induction xs arbitrary: ys zs)
  case Nil
  from Nil(2) obtain y ys' where ys: "ys = y # ys'"
    by (cases ys) (simp_all add: ord_holds_def)
  from Nil(3) ys obtain z zs' where zs: "zs = z # zs'"
    by (cases zs) (simp_all add: ord_holds_def)
  show ?case by (simp add: zs ord_holds_def)
next
  case (Cons x xs)
  note elem = Cons.prems(1) and p1 = Cons.prems(2) and p2 = Cons.prems(3)
  from p1 obtain y ys' where ys: "ys = y # ys'"
    by (cases ys) (simp_all add: ord_holds_def)
  from p2 ys obtain z zs' where zs: "zs = z # zs'"
    by (cases zs) (simp_all add: ord_holds_def)
  have elem_tl: "\<And>x' b c. x' \<in> set xs \<Longrightarrow> py_ord Lt x' b = Inr True \<Longrightarrow>
                   py_ord Lt b c = Inr True \<Longrightarrow> py_ord Lt x' c = Inr True"
  proof -
    fix x' b c
    assume "x' \<in> set xs" and a: "py_ord Lt x' b = Inr True" and b: "py_ord Lt b c = Inr True"
    then have "x' \<in> set (x # xs)" by simp
    then show "py_ord Lt x' c = Inr True" using a b by (rule elem)
  qed
  have x_in: "x \<in> set (x # xs)" by simp
  show ?case
  proof (cases "py_eq x y")
    case xy: True
    from p1 have tl1: "tuple_ord Lt xs ys' = Inr True" unfolding ys using xy by simp
    show ?thesis
    proof (cases "py_eq y z")
      case yz: True
      from p2 have tl2: "tuple_ord Lt ys' zs' = Inr True" unfolding ys zs using yz by simp
      have "tuple_ord Lt xs zs' = Inr True" using elem_tl tl1 tl2 by (rule Cons.IH)
      moreover have "py_eq x z" using xy yz by (rule py_eq_trans)
      ultimately show ?thesis unfolding zs by simp
    next
      case yz: False
      from p2 have "py_ord Lt y z = Inr True" unfolding ys zs using yz by simp
      moreover have "py_ord Lt x z = py_ord Lt y z"
        using xy py_eq_refl by (rule py_ord_cong_eq)
      ultimately have xz: "py_ord Lt x z = Inr True" by simp
      from xz have "\<not> py_eq x z" by (rule lt_not_eq)
      with xz show ?thesis unfolding zs by simp
    qed
  next
    case xy: False
    from p1 have hd1: "py_ord Lt x y = Inr True" unfolding ys using xy by simp
    show ?thesis
    proof (cases "py_eq y z")
      case yz: True
      have "py_ord Lt x y = py_ord Lt x z"
        using py_eq_refl yz by (rule py_ord_cong_eq)
      with hd1 have xz: "py_ord Lt x z = Inr True" by simp
      from xz have "\<not> py_eq x z" by (rule lt_not_eq)
      with xz show ?thesis unfolding zs by simp
    next
      case yz: False
      from p2 have "py_ord Lt y z = Inr True" unfolding ys zs using yz by simp
      with x_in hd1 have xz: "py_ord Lt x z = Inr True" by (rule elem)
      from xz have "\<not> py_eq x z" by (rule lt_not_eq)
      with xz show ?thesis unfolding zs by simp
    qed
  qed
qed

lemma lt_trans:
  "py_ord Lt a b = Inr True \<Longrightarrow> py_ord Lt b c = Inr True \<Longrightarrow> py_ord Lt a c = Inr True"
proof (induction a arbitrary: b c)
  case PNone
  then show ?case by simp
next
  case (PBool x)
  then show ?case by (cases b; cases c) (simp_all add: ord_holds_def split: if_splits)
next
  case (PInt n)
  then show ?case by (cases b; cases c) (simp_all add: ord_holds_def split: if_splits)
next
  case (PStr s)
  then show ?case by (cases b; cases c) (simp_all add: ord_holds_def)
next
  case (PBuiltin f)
  then show ?case by simp
next
  case (PTuple xs)
  from PTuple.prems(1) obtain ys where b: "b = PTuple ys" by (cases b) simp_all
  from PTuple.prems(2) b obtain zs where c: "c = PTuple zs" by (cases c) simp_all
  from PTuple.prems(1) have xy: "tuple_ord Lt xs ys = Inr True" unfolding b by simp
  from PTuple.prems(2) have yz: "tuple_ord Lt ys zs = Inr True" unfolding b c by simp
  have "tuple_ord Lt xs zs = Inr True"
    using PTuple.IH xy yz by (rule tuple_lt_trans_aux)
  then show ?case unfolding c by simp
qed

lemma tuple_lt_trans:
  "tuple_ord Lt xs ys = Inr True \<Longrightarrow> tuple_ord Lt ys zs = Inr True \<Longrightarrow>
   tuple_ord Lt xs zs = Inr True"
  using lt_trans [of "PTuple xs" "PTuple ys" "PTuple zs"] by simp

lemma issubclass_refl: "issubclass c c"
  by (cases c) simp

lemma issubclass_trans: "issubclass a b \<Longrightarrow> issubclass b c \<Longrightarrow> issubclass a c"
proof (induction a b rule: issubclass.induct)
  case (1 i n bs d)
  show ?case
  proof (cases "PyType i n bs = d")
    case True
    with "1.prems"(2) show ?thesis by simp
  next
    case False
    with "1.prems"(1) obtain base where base: "base \<in> set bs" "issubclass base d" by auto
    from base "1.prems"(2) have "issubclass base c" by (rule "1.IH")
    with base(1) show ?thesis by auto
  qed
qed

lemma attrs_to_tuple_length: "attrs_to_tuple attrs x = Inr t \<Longrightarrow> length t = length attrs"
  by (induction attrs arbitrary: t) (auto split: sum.splits)

lemma attrs_to_tuple_nth:
  "attrs_to_tuple attrs x = Inr t \<Longrightarrow> k < length attrs \<Longrightarrow> ob_dict x (attrs ! k) = Some (t ! k)"
proof (induction attrs arbitrary: t k)
  case Nil
  then show ?case by simp
next
  case (Cons a as)
  then show ?case
    by (cases k) (auto simp: getattr_def split: sum.splits option.splits)
qed

lemma tuple_ord_all_eq:
  "list_all2 py_eq t u \<Longrightarrow> tuple_ord op t u = Inr (op = Le \<or> op = Ge)"
proof (induction t arbitrary: u)
  case Nil
  then show ?case by (cases op) (simp_all add: ord_holds_def)
next
  case (Cons x t)
  then show ?case by (cases u) simp_all
qed

lemma tuple_ord_first_diff:
  "i < length t \<Longrightarrow> i < length u \<Longrightarrow> (\<forall>j<i. py_eq (t ! j) (u ! j)) \<Longrightarrow>
   \<not> py_eq (t ! i) (u ! i) \<Longrightarrow> tuple_ord op t u = py_ord op (t ! i) (u ! i)"
proof (induction t arbitrary: u i)
  case Nil
  then show ?case by simp
next
  case (Cons x t)
  from Cons.prems(2) obtain y u' where u: "u = y # u'" by (cases u) simp_all
  show ?case
  proof (cases i)
    case 0
    with Cons.prems(4) show ?thesis by (simp add: u)
  next
    case (Suc k)
    from Cons.prems(3) Suc have hd: "py_eq x y" unfolding u by fastforce
    have "k < length t" "k < length u'" using Cons.prems(1,2) Suc u by simp_all
    moreover have "\<forall>j<k. py_eq (t ! j) (u' ! j)"
      using Cons.prems(3) Suc u by fastforce
    moreover have "\<not> py_eq (t ! k) (u' ! k)" using Cons.prems(4) Suc u by simp
    ultimately have "tuple_ord op t u' = py_ord op (t ! k) (u' ! k)" by (rule Cons.IH)
    with hd show ?thesis by (simp add: u Suc)
  qed
qed

lemma all2_first_diff:
  "i < length t \<Longrightarrow> \<not> py_eq (t ! i) (u ! i) \<Longrightarrow> \<not> list_all2 py_eq t u"
  by (auto simp: list_all2_conv_all_nth)

lemma tuple_eq_hash: "tuple_eq xs ys \<Longrightarrow> map (py_hash h) xs = map (py_hash h) ys"
proof -
  assume "tuple_eq xs ys"
  then have "map norm xs = map norm ys" by (simp add: tuple_eq_norm)
  then have "map (py_hash h) (map norm xs) = map (py_hash h) (map norm ys)" by simp
  then show ?thesis by (simp add: py_hash_norm o_def)
qed

section \<open>Properties of the comparison methods\<close>

text \<open>
  Claim C2, as stated: whenever the concrete types of the operands differ, also when the
  other operand is an instance of a subclass, each relational operation returns
  \<^verbatim>\<open>NotImplemented\<close>. The guard is \<^verbatim>\<open>isinstance(other, self.__class__)\<close>, which an instance
  of a subclass passes: with \<^verbatim>\<open>Base(a=1)\<close> as \<^verbatim>\<open>self\<close> and \<^verbatim>\<open>Sub(a=1)\<close> as the other
  operand, all six operations compare the tuples and return booleans.
\<close>

theorem subclass_operand_compared:
  "ob_type \<lparr>ob_type = PyType 1 ''Sub'' [PyType 0 ''Base'' []], ob_dict = [''a'' \<mapsto> PInt 1]\<rparr>
     \<noteq> ob_type \<lparr>ob_type = PyType 0 ''Base'' [], ob_dict = [''a'' \<mapsto> PInt 1]\<rparr>
   \<and> eq [''a''] \<lparr>ob_type = PyType 0 ''Base'' [], ob_dict = [''a'' \<mapsto> PInt 1]\<rparr>
      (Instance \<lparr>ob_type = PyType 1 ''Sub'' [PyType 0 ''Base'' []], ob_dict = [''a'' \<mapsto> PInt 1]\<rparr>) = Inr (Truth True)
   \<and> ne [''a''] \<lparr>ob_type = PyType 0 ''Base'' [], ob_dict = [''a'' \<mapsto> PInt 1]\<rparr>
      (Instance \<lparr>ob_type = PyType 1 ''Sub'' [PyType 0 ''Base'' []], ob_dict = [''a'' \<mapsto> PInt 1]\<rparr>) = Inr (Truth False)
   \<and> lt [''a''] \<lparr>ob_type = PyType 0 ''Base'' [], ob_dict = [''a'' \<mapsto> PInt 1]\<rparr>
      (Instance \<lparr>ob_type = PyType 1 ''Sub'' [PyType 0 ''Base'' []], ob_dict = [''a'' \<mapsto> PInt 1]\<rparr>) = Inr (Truth False)
   \<and> le [''a''] \<lparr>ob_type = PyType 0 ''Base'' [], ob_dict = [''a'' \<mapsto> PInt 1]\<rparr>
      (Instance \<lparr>ob_type = PyType 1 ''Sub'' [PyType 0 ''Base'' []], ob_dict = [''a'' \<mapsto> PInt 1]\<rparr>) = Inr (Truth True)
   \<and> gt [''a''] \<lparr>ob_type = PyType 0 ''Base'' [], ob_dict = [''a'' \<mapsto> PInt 1]\<rparr>
      (Instance \<lparr>ob_type = PyType 1 ''Sub'' [PyType 0 ''Base'' []], ob_dict = [''a'' \<mapsto> PInt 1]\<rparr>) = Inr (Truth False)
   \<and> ge [''a''] \<lparr>ob_type = PyType 0 ''Base'' [], ob_dict = [''a'' \<mapsto> PInt 1]\<rparr>
      (Instance \<lparr>ob_type = PyType 1 ''Sub'' [PyType 0 ''Base'' []], ob_dict = [''a'' \<mapsto> PInt 1]\<rparr>) = Inr (Truth True)"
  by (simp add: eq_def ne_def lt_def le_def gt_def ge_def ordering_def getattr_def ord_holds_def)

text \<open>
  Claim C2, amended: each of the six relational operations first checks that the other
  operand is an instance of the class of \<^verbatim>\<open>self\<close> (its concrete type is that class or a
  subclass of it). Whenever it is not, the operation returns \<^verbatim>\<open>NotImplemented\<close>, not a
  boolean and not an exception. Whenever it is, also for an instance of a subclass, the
  operation never returns \<^verbatim>\<open>NotImplemented\<close>: it reads the tuple of \<^verbatim>\<open>self\<close> and then the
  tuple of the other operand, raises what the first missing attribute raises, and else
  returns the boolean the operator gives on the two tuples (or raises what the operator
  raises on them).
\<close>

theorem relational_guard:
  "(\<not> isinstance other (ob_type self) \<longrightarrow>
      eq attrs self other = Inr NotImplemented \<and> ne attrs self other = Inr NotImplemented \<and>
      lt attrs self other = Inr NotImplemented \<and> le attrs self other = Inr NotImplemented \<and>
      gt attrs self other = Inr NotImplemented \<and> ge attrs self other = Inr NotImplemented)
   \<and> (isinstance other (ob_type self) \<longrightarrow>
      (\<exists>that. other = Instance that \<and> issubclass (ob_type that) (ob_type self) \<and>
        (case attrs_to_tuple attrs self of
           Inl e \<Rightarrow>
             eq attrs self other = Inl e \<and> ne attrs self other = Inl e \<and>
             lt attrs self other = Inl e \<and> le attrs self other = Inl e \<and>
             gt attrs self other = Inl e \<and> ge attrs self other = Inl e
         | Inr t \<Rightarrow>
             (case attrs_to_tuple attrs that of
                Inl e \<Rightarrow>
                  eq attrs self other = Inl e \<and> ne attrs self other = Inl e \<and>
                  lt attrs self other = Inl e \<and> le attrs self other = Inl e \<and>
                  gt attrs self other = Inl e \<and> ge attrs self other = Inl e
              | Inr u \<Rightarrow>
                  eq attrs self other = Inr (Truth (list_all2 py_eq t u)) \<and>
                  ne attrs self other = Inr (Truth (\<not> list_all2 py_eq t u)) \<and>
                  lt attrs self other = 
                    (case tuple_ord Lt t u of Inl e \<Rightarrow> Inl e | Inr b \<Rightarrow> Inr (Truth b)) \<and>
                  le attrs self other = 
                    (case tuple_ord Le t u of Inl e \<Rightarrow> Inl e | Inr b \<Rightarrow> Inr (Truth b)) \<and>
                  gt attrs self other = 
                    (case tuple_ord Gt t u of Inl e \<Rightarrow> Inl e | Inr b \<Rightarrow> Inr (Truth b)) \<and>
                  ge attrs self other = 
                    (case tuple_ord Ge t u of Inl e \<Rightarrow> Inl e | Inr b \<Rightarrow> Inr (Truth b))))))"
proof (cases other)
  case (Value v)
  then show ?thesis
    by (simp add: eq_def ne_def lt_def le_def gt_def ge_def ordering_def)
next
  case (Instance that)
  show ?thesis
  proof (cases "issubclass (ob_type that) (ob_type self)")
    case False
    with Instance show ?thesis
      by (simp add: eq_def ne_def lt_def le_def gt_def ge_def ordering_def)
  next
    case True
    with Instance show ?thesis
      by (simp add: eq_def ne_def lt_def le_def gt_def ge_def ordering_def tuple_eq_all2
          split: sum.splits)
  qed
qed

theorem relational_guard_witness:
  "eq [''a''] \<lparr>ob_type = PyType 1 ''Sub'' [PyType 0 ''Base'' []], ob_dict = [''a'' \<mapsto> PInt 1]\<rparr>
      (Instance \<lparr>ob_type = PyType 0 ''Base'' [], ob_dict = [''a'' \<mapsto> PInt 1]\<rparr>) = Inr NotImplemented
   \<and> lt [''a''] \<lparr>ob_type = PyType 1 ''Sub'' [PyType 0 ''Base'' []], ob_dict = [''a'' \<mapsto> PInt 1]\<rparr>
      (Value (PInt 1)) = Inr NotImplemented
   \<and> le [''a''] \<lparr>ob_type = PyType 0 ''Base'' [], ob_dict = [''a'' \<mapsto> PInt 1]\<rparr>
      (Instance \<lparr>ob_type = PyType 1 ''Sub'' [PyType 0 ''Base'' []], ob_dict = [''a'' \<mapsto> PInt 1]\<rparr>) = Inr (Truth True)
   \<and> gt [''a''] \<lparr>ob_type = PyType 0 ''Base'' [], ob_dict = [''a'' \<mapsto> PInt 1]\<rparr>
      (Instance \<lparr>ob_type = PyType 1 ''Sub'' [PyType 0 ''Base'' []], ob_dict = [''a'' \<mapsto> PInt 1]\<rparr>) = Inr (Truth False)
   \<and> ge [''a''] \<lparr>ob_type = PyType 0 ''Base'' [], ob_dict = [''a'' \<mapsto> PInt 1]\<rparr>
      (Instance \<lparr>ob_type = PyType 1 ''Sub'' [PyType 0 ''Base'' []], ob_dict = Map.empty\<rparr>) = Inl (AttributeError ''a'')"
  using relational_guard [of "Instance \<lparr>ob_type = PyType 0 ''Base'' [], ob_dict = [''a'' \<mapsto> PInt 1]\<rparr>"
      "\<lparr>ob_type = PyType 1 ''Sub'' [PyType 0 ''Base'' []], ob_dict = [''a'' \<mapsto> PInt 1]\<rparr>" "[''a'']"]
    relational_guard [of "Value (PInt 1)"
      "\<lparr>ob_type = PyType 1 ''Sub'' [PyType 0 ''Base'' []], ob_dict = [''a'' \<mapsto> PInt 1]\<rparr>" "[''a'']"]
    relational_guard [of "Instance \<lparr>ob_type = PyType 1 ''Sub'' [PyType 0 ''Base'' []], ob_dict = [''a'' \<mapsto> PInt 1]\<rparr>"
      "\<lparr>ob_type = PyType 0 ''Base'' [], ob_dict = [''a'' \<mapsto> PInt 1]\<rparr>" "[''a'']"]
    relational_guard [of "Instance \<lparr>ob_type = PyType 1 ''Sub'' [PyType 0 ''Base'' []], ob_dict = Map.empty\<rparr>"
      "\<lparr>ob_type = PyType 0 ''Base'' [], ob_dict = [''a'' \<mapsto> PInt 1]\<rparr>" "[''a'']"]
  by (simp add: getattr_def ord_holds_def)

text \<open>
  Claim C7, as stated: for operands of differing concrete types \<^verbatim>\<open>ne\<close> returns
  \<^verbatim>\<open>NotImplemented\<close> and is never the negation of \<^verbatim>\<open>eq\<close>. For an instance of a subclass
  the types differ, \<^verbatim>\<open>eq\<close> returns a boolean and \<^verbatim>\<open>ne\<close> returns its negation.
\<close>

theorem ne_negates_for_subclass_operand:
  "ob_type \<lparr>ob_type = PyType 1 ''Sub'' [PyType 0 ''Base'' []], ob_dict = [''a'' \<mapsto> PInt 1]\<rparr>
     \<noteq> ob_type \<lparr>ob_type = PyType 0 ''Base'' [], ob_dict = [''a'' \<mapsto> PInt 1]\<rparr>
   \<and> eq [''a''] \<lparr>ob_type = PyType 0 ''Base'' [], ob_dict = [''a'' \<mapsto> PInt 1]\<rparr>
      (Instance \<lparr>ob_type = PyType 1 ''Sub'' [PyType 0 ''Base'' []], ob_dict = [''a'' \<mapsto> PInt 1]\<rparr>) = Inr (Truth True)
   \<and> ne [''a''] \<lparr>ob_type = PyType 0 ''Base'' [], ob_dict = [''a'' \<mapsto> PInt 1]\<rparr>
      (Instance \<lparr>ob_type = PyType 1 ''Sub'' [PyType 0 ''Base'' []], ob_dict = [''a'' \<mapsto> PInt 1]\<rparr>) = Inr (Truth False)"
  by (simp add: eq_def ne_def getattr_def)

text \<open>
  Claim C7, amended: for every operand that is an instance of the class of \<^verbatim>\<open>self\<close>, of
  the same concrete type or of a subclass, \<^verbatim>\<open>ne\<close> returns the negation of the boolean
  \<^verbatim>\<open>eq\<close> returns, that boolean being whether the two tuples are equal; when an attribute
  is missing on \<^verbatim>\<open>self\<close> or on the other operand, both raise the same
  \<^verbatim>\<open>AttributeError\<close>. For an operand that is not an instance of the class of \<^verbatim>\<open>self\<close>,
  both \<^verbatim>\<open>eq\<close> and \<^verbatim>\<open>ne\<close> return \<^verbatim>\<open>NotImplemented\<close>. Two instances of the same concrete
  type are always in the first case.
\<close>

theorem ne_complement:
  "(isinstance other (ob_type self) \<longrightarrow>
      (\<exists>that. other = Instance that \<and>
        (case attrs_to_tuple attrs self of
           Inl e \<Rightarrow> eq attrs self other = Inl e \<and> ne attrs self other = Inl e
         | Inr t \<Rightarrow>
             (case attrs_to_tuple attrs that of
                Inl e \<Rightarrow> eq attrs self other = Inl e \<and> ne attrs self other = Inl e
              | Inr u \<Rightarrow>
                  eq attrs self other = Inr (Truth (list_all2 py_eq t u)) \<and>
                  ne attrs self other = Inr (Truth (\<not> list_all2 py_eq t u))))))
   \<and> (\<not> isinstance other (ob_type self) \<longrightarrow>
      eq attrs self other = Inr NotImplemented \<and> ne attrs self other = Inr NotImplemented)
   \<and> (ob_type x = ob_type self \<longrightarrow> isinstance (Instance x) (ob_type self))"
proof (cases other)
  case (Value v)
  then show ?thesis by (simp add: eq_def ne_def issubclass_refl)
next
  case (Instance that)
  then show ?thesis
    by (cases "issubclass (ob_type that) (ob_type self)")
       (simp_all add: eq_def ne_def issubclass_refl tuple_eq_all2 split: sum.splits)
qed

theorem ne_complement_witness:
  "eq [''a''] \<lparr>ob_type = PyType 0 ''Base'' [], ob_dict = [''a'' \<mapsto> PInt 1]\<rparr>
      (Instance \<lparr>ob_type = PyType 0 ''Base'' [], ob_dict = [''a'' \<mapsto> PInt 2]\<rparr>) = Inr (Truth False)
   \<and> ne [''a''] \<lparr>ob_type = PyType 0 ''Base'' [], ob_dict = [''a'' \<mapsto> PInt 1]\<rparr>
      (Instance \<lparr>ob_type = PyType 0 ''Base'' [], ob_dict = [''a'' \<mapsto> PInt 2]\<rparr>) = Inr (Truth True)
   \<and> ne [''a''] \<lparr>ob_type = PyType 0 ''Base'' [], ob_dict = [''a'' \<mapsto> PInt 1]\<rparr>
      (Instance \<lparr>ob_type = PyType 1 ''Sub'' [PyType 0 ''Base'' []], ob_dict = [''a'' \<mapsto> PInt 1]\<rparr>) = Inr (Truth False)
   \<and> ne [''a''] \<lparr>ob_type = PyType 0 ''Base'' [], ob_dict = [''a'' \<mapsto> PInt 1]\<rparr>
      (Instance \<lparr>ob_type = PyType 1 ''Sub'' [PyType 0 ''Base'' []], ob_dict = Map.empty\<rparr>) = Inl (AttributeError ''a'')
   \<and> ne [''a''] \<lparr>ob_type = PyType 0 ''Base'' [], ob_dict = [''a'' \<mapsto> PInt 1]\<rparr> (Value (PInt 1))
      = Inr NotImplemented"
  using ne_complement [of "Instance \<lparr>ob_type = PyType 0 ''Base'' [], ob_dict = [''a'' \<mapsto> PInt 2]\<rparr>"
      "\<lparr>ob_type = PyType 0 ''Base'' [], ob_dict = [''a'' \<mapsto> PInt 1]\<rparr>" "[''a'']"
      "\<lparr>ob_type = PyType 0 ''Base'' [], ob_dict = [''a'' \<mapsto> PInt 2]\<rparr>"]
    ne_complement [of "Instance \<lparr>ob_type = PyType 1 ''Sub'' [PyType 0 ''Base'' []], ob_dict = [''a'' \<mapsto> PInt 1]\<rparr>"
      "\<lparr>ob_type = PyType 0 ''Base'' [], ob_dict = [''a'' \<mapsto> PInt 1]\<rparr>" "[''a'']"
      "\<lparr>ob_type = PyType 0 ''Base'' [], ob_dict = [''a'' \<mapsto> PInt 2]\<rparr>"]
    ne_complement [of "Instance \<lparr>ob_type = PyType 1 ''Sub'' [PyType 0 ''Base'' []], ob_dict = Map.empty\<rparr>"
      "\<lparr>ob_type = PyType 0 ''Base'' [], ob_dict = [''a'' \<mapsto> PInt 1]\<rparr>" "[''a'']"
      "\<lparr>ob_type = PyType 0 ''Base'' [], ob_dict = [''a'' \<mapsto> PInt 2]\<rparr>"]
    ne_complement [of "Value (PInt 1)"
      "\<lparr>ob_type = PyType 0 ''Base'' [], ob_dict = [''a'' \<mapsto> PInt 1]\<rparr>" "[''a'']"
      "\<lparr>ob_type = PyType 0 ''Base'' [], ob_dict = [''a'' \<mapsto> PInt 2]\<rparr>"]
  by (simp add: getattr_def)

text \<open>
  Claim C4: for two instances \<open>x\<close> and \<open>y\<close> of the same concrete type that have all the
  attributes, with \<open>t\<close> and \<open>u\<close> their tuples of attribute values read in the order of
  \<^verbatim>\<open>attrs\<close>: \<^verbatim>\<open>eq\<close> returns true exactly when the tuples are equal, item by item; when
  they are equal, \<^verbatim>\<open>le\<close> and \<^verbatim>\<open>ge\<close> hold and \<^verbatim>\<open>lt\<close> and \<^verbatim>\<open>gt\<close> do not; and when \<open>i\<close> is
  the first position whose items are unequal, \<^verbatim>\<open>eq\<close> is false and each of \<^verbatim>\<open>lt\<close>, \<^verbatim>\<open>le\<close>,
  \<^verbatim>\<open>gt\<close>, \<^verbatim>\<open>ge\<close> returns (or raises) what the same operator gives on that pair of items.
\<close>

theorem comparison_is_lexicographic:
  assumes "ob_type y = ob_type x"
    and "attrs_to_tuple attrs x = Inr t"
    and "attrs_to_tuple attrs y = Inr u"
  shows "(\<forall>k<length attrs. ob_dict x (attrs ! k) = Some (t ! k) \<and> ob_dict y (attrs ! k) = Some (u ! k))
   \<and> eq attrs x (Instance y) = Inr (Truth (list_all2 py_eq t u))
   \<and> (list_all2 py_eq t u \<longrightarrow>
        lt attrs x (Instance y) = Inr (Truth False) \<and> le attrs x (Instance y) = Inr (Truth True) \<and>
        gt attrs x (Instance y) = Inr (Truth False) \<and> ge attrs x (Instance y) = Inr (Truth True))
   \<and> (i < length attrs \<and> (\<forall>j<i. py_eq (t ! j) (u ! j)) \<and> \<not> py_eq (t ! i) (u ! i) \<longrightarrow>
        eq attrs x (Instance y) = Inr (Truth False) \<and>
        lt attrs x (Instance y) = (case py_ord Lt (t ! i) (u ! i) of Inl e \<Rightarrow> Inl e | Inr b \<Rightarrow> Inr (Truth b)) \<and>
        le attrs x (Instance y) = (case py_ord Le (t ! i) (u ! i) of Inl e \<Rightarrow> Inl e | Inr b \<Rightarrow> Inr (Truth b)) \<and>
        gt attrs x (Instance y) = (case py_ord Gt (t ! i) (u ! i) of Inl e \<Rightarrow> Inl e | Inr b \<Rightarrow> Inr (Truth b)) \<and>
        ge attrs x (Instance y) = (case py_ord Ge (t ! i) (u ! i) of Inl e \<Rightarrow> Inl e | Inr b \<Rightarrow> Inr (Truth b)))"
proof -
  have inst: "isinstance (Instance y) (ob_type x)"
    using assms(1) by (simp add: issubclass_refl)
  have len: "length t = length attrs" "length u = length attrs"
    using assms(2,3) by (simp_all add: attrs_to_tuple_length)
  have nth: "\<forall>k<length attrs. ob_dict x (attrs ! k) = Some (t ! k) \<and> ob_dict y (attrs ! k) = Some (u ! k)"
    using assms(2,3) by (simp add: attrs_to_tuple_nth)
  have e: "eq attrs x (Instance y) = Inr (Truth (list_all2 py_eq t u))"
    using inst assms(2,3) by (simp add: eq_def tuple_eq_all2)
  have o: "ordering op attrs x (Instance y) =
      (case tuple_ord op t u of Inl e \<Rightarrow> Inl e | Inr b \<Rightarrow> Inr (Truth b))" for op
    using inst assms(2,3) by (simp add: ordering_def)
  have same: "list_all2 py_eq t u \<longrightarrow>
        lt attrs x (Instance y) = Inr (Truth False) \<and> le attrs x (Instance y) = Inr (Truth True) \<and>
        gt attrs x (Instance y) = Inr (Truth False) \<and> ge attrs x (Instance y) = Inr (Truth True)"
    by (simp add: lt_def le_def gt_def ge_def o tuple_ord_all_eq)
  have diff: "i < length attrs \<and> (\<forall>j<i. py_eq (t ! j) (u ! j)) \<and> \<not> py_eq (t ! i) (u ! i) \<longrightarrow>
        eq attrs x (Instance y) = Inr (Truth False) \<and>
        lt attrs x (Instance y) = (case py_ord Lt (t ! i) (u ! i) of Inl e \<Rightarrow> Inl e | Inr b \<Rightarrow> Inr (Truth b)) \<and>
        le attrs x (Instance y) = (case py_ord Le (t ! i) (u ! i) of Inl e \<Rightarrow> Inl e | Inr b \<Rightarrow> Inr (Truth b)) \<and>
        gt attrs x (Instance y) = (case py_ord Gt (t ! i) (u ! i) of Inl e \<Rightarrow> Inl e | Inr b \<Rightarrow> Inr (Truth b)) \<and>
        ge attrs x (Instance y) = (case py_ord Ge (t ! i) (u ! i) of Inl e \<Rightarrow> Inl e | Inr b \<Rightarrow> Inr (Truth b))"
  proof
    assume h: "i < length attrs \<and> (\<forall>j<i. py_eq (t ! j) (u ! j)) \<and> \<not> py_eq (t ! i) (u ! i)"
    then have i: "i < length t" "i < length u" using len by simp_all
    have d: "tuple_ord op t u = py_ord op (t ! i) (u ! i)" for op
      using i h by (simp add: tuple_ord_first_diff)
    have "\<not> list_all2 py_eq t u" using i(1) h by (simp add: all2_first_diff)
    then show "eq attrs x (Instance y) = Inr (Truth False) \<and>
        lt attrs x (Instance y) = (case py_ord Lt (t ! i) (u ! i) of Inl e \<Rightarrow> Inl e | Inr b \<Rightarrow> Inr (Truth b)) \<and>
        le attrs x (Instance y) = (case py_ord Le (t ! i) (u ! i) of Inl e \<Rightarrow> Inl e | Inr b \<Rightarrow> Inr (Truth b)) \<and>
        gt attrs x (Instance y) = (case py_ord Gt (t ! i) (u ! i) of Inl e \<Rightarrow> Inl e | Inr b \<Rightarrow> Inr (Truth b)) \<and>
        ge attrs x (Instance y) = (case py_ord Ge (t ! i) (u ! i) of Inl e \<Rightarrow> Inl e | Inr b \<Rightarrow> Inr (Truth b))"
      by (simp add: e lt_def le_def gt_def ge_def o d)
  qed
  from nth e same diff show ?thesis by blast
qed

theorem comparison_is_lexicographic_witness:
  "eq [''a'', ''b''] \<lparr>ob_type = PyType 0 ''P'' [], ob_dict = [''a'' \<mapsto> PInt 1, ''b'' \<mapsto> PInt 2]\<rparr>
     (Instance \<lparr>ob_type = PyType 0 ''P'' [], ob_dict = [''a'' \<mapsto> PBool True, ''b'' \<mapsto> PInt 5]\<rparr>)
     = Inr (Truth False)
   \<and> lt [''a'', ''b''] \<lparr>ob_type = PyType 0 ''P'' [], ob_dict = [''a'' \<mapsto> PInt 1, ''b'' \<mapsto> PInt 2]\<rparr>
     (Instance \<lparr>ob_type = PyType 0 ''P'' [], ob_dict = [''a'' \<mapsto> PBool True, ''b'' \<mapsto> PInt 5]\<rparr>)
     = Inr (Truth True)
   \<and> ge [''a'', ''b''] \<lparr>ob_type = PyType 0 ''P'' [], ob_dict = [''a'' \<mapsto> PInt 1, ''b'' \<mapsto> PInt 2]\<rparr>
     (Instance \<lparr>ob_type = PyType 0 ''P'' [], ob_dict = [''a'' \<mapsto> PBool True, ''b'' \<mapsto> PInt 5]\<rparr>)
     = Inr (Truth False)
   \<and> eq [''a'', ''b''] \<lparr>ob_type = PyType 0 ''P'' [], ob_dict = [''a'' \<mapsto> PInt 1, ''b'' \<mapsto> PInt 2]\<rparr>
     (Instance \<lparr>ob_type = PyType 0 ''P'' [], ob_dict = [''a'' \<mapsto> PBool True, ''b'' \<mapsto> PInt 2]\<rparr>)
     = Inr (Truth True)
   \<and> lt [''a'', ''b''] \<lparr>ob_type = PyType 0 ''P'' [], ob_dict = [''a'' \<mapsto> PInt 1, ''b'' \<mapsto> PInt 2]\<rparr>
     (Instance \<lparr>ob_type = PyType 0 ''P'' [], ob_dict = [''a'' \<mapsto> PBool True, ''b'' \<mapsto> PInt 2]\<rparr>)
     = Inr (Truth False)
   \<and> le [''a'', ''b''] \<lparr>ob_type = PyType 0 ''P'' [], ob_dict = [''a'' \<mapsto> PInt 1, ''b'' \<mapsto> PInt 2]\<rparr>
     (Instance \<lparr>ob_type = PyType 0 ''P'' [], ob_dict = [''a'' \<mapsto> PBool True, ''b'' \<mapsto> PInt 2]\<rparr>)
     = Inr (Truth True)"
  using comparison_is_lexicographic [where attrs = "[''a'', ''b'']"
      and x = "\<lparr>ob_type = PyType 0 ''P'' [], ob_dict = [''a'' \<mapsto> PInt 1, ''b'' \<mapsto> PInt 2]\<rparr>"
      and y = "\<lparr>ob_type = PyType 0 ''P'' [], ob_dict = [''a'' \<mapsto> PBool True, ''b'' \<mapsto> PInt 5]\<rparr>"
      and t = "[PInt 1, PInt 2]" and u = "[PBool True, PInt 5]" and i = 1]
    comparison_is_lexicographic [where attrs = "[''a'', ''b'']"
      and x = "\<lparr>ob_type = PyType 0 ''P'' [], ob_dict = [''a'' \<mapsto> PInt 1, ''b'' \<mapsto> PInt 2]\<rparr>"
      and y = "\<lparr>ob_type = PyType 0 ''P'' [], ob_dict = [''a'' \<mapsto> PBool True, ''b'' \<mapsto> PInt 2]\<rparr>"
      and t = "[PInt 1, PInt 2]" and u = "[PBool True, PInt 2]" and i = 0]
  by (simp add: getattr_def ord_holds_def)

text \<open>
  Claim C5: if \<^verbatim>\<open>eq\<close> returns true for \<open>x\<close> and \<open>y\<close>, then \<^verbatim>\<open>hash\<close> gives the same result
  on both, whatever the interpreter's hashes of integers, strings and \<^verbatim>\<open>None\<close> and its
  combiner for tuples are, and also when the attribute values are of different types
  (\<^verbatim>\<open>True\<close> and \<^verbatim>\<open>1\<close> are equal and hash alike).
\<close>

theorem equal_instances_hash_alike:
  "eq attrs x (Instance y) = Inr (Truth True) \<Longrightarrow> hash_fn h attrs x = hash_fn h attrs y"
  by (auto simp: eq_def hash_fn_def tuple_eq_hash split: if_splits sum.splits)

theorem equal_instances_hash_alike_witness:
  "eq [''a'', ''b''] \<lparr>ob_type = PyType 0 ''P'' [], ob_dict = [''a'' \<mapsto> PInt 1, ''b'' \<mapsto> PStr ''x'']\<rparr>
     (Instance \<lparr>ob_type = PyType 0 ''P'' [], ob_dict = [''a'' \<mapsto> PBool True, ''b'' \<mapsto> PStr ''x'']\<rparr>)
     = Inr (Truth True)
   \<and> hash_fn \<lparr>hash_int = (\<lambda>n. n mod 2305843009213693951), hash_str = (\<lambda>s. int (length s)),
        hash_none = 0, hash_tuple = foldl (\<lambda>acc k. 31 * acc + k) 17,
        hash_builtin = (\<lambda>f. int (length f))\<rparr>
       [''a'', ''b''] \<lparr>ob_type = PyType 0 ''P'' [], ob_dict = [''a'' \<mapsto> PInt 1, ''b'' \<mapsto> PStr ''x'']\<rparr>
     = hash_fn \<lparr>hash_int = (\<lambda>n. n mod 2305843009213693951), hash_str = (\<lambda>s. int (length s)),
        hash_none = 0, hash_tuple = foldl (\<lambda>acc k. 31 * acc + k) 17,
        hash_builtin = (\<lambda>f. int (length f))\<rparr>
       [''a'', ''b''] \<lparr>ob_type = PyType 0 ''P'' [], ob_dict = [''a'' \<mapsto> PBool True, ''b'' \<mapsto> PStr ''x'']\<rparr>"
proof -
  have e: "eq [''a'', ''b''] \<lparr>ob_type = PyType 0 ''P'' [], ob_dict = [''a'' \<mapsto> PInt 1, ''b'' \<mapsto> PStr ''x'']\<rparr>
     (Instance \<lparr>ob_type = PyType 0 ''P'' [], ob_dict = [''a'' \<mapsto> PBool True, ''b'' \<mapsto> PStr ''x'']\<rparr>)
     = Inr (Truth True)"
    by (simp add: eq_def getattr_def)
  from e equal_instances_hash_alike [OF e] show ?thesis by blast
qed

text \<open>
  Claim C9: the synthesized order is transitive: if \<^verbatim>\<open>lt(x, y)\<close> and \<^verbatim>\<open>lt(y, z)\<close> both
  return true, then \<^verbatim>\<open>lt(x, z)\<close> returns true. The values of the universe are ordered
  transitively, item by item, and the instance check passes from \<open>x\<close>, \<open>y\<close> and \<open>y\<close>, \<open>z\<close> to
  \<open>x\<close>, \<open>z\<close>.
\<close>

theorem lt_transitive:
  assumes "lt attrs x (Instance y) = Inr (Truth True)"
    and "lt attrs y (Instance z) = Inr (Truth True)"
  shows "lt attrs x (Instance z) = Inr (Truth True)"
proof -
  from assms(1) obtain t u where xy: "issubclass (ob_type y) (ob_type x)"
      "attrs_to_tuple attrs x = Inr t" "attrs_to_tuple attrs y = Inr u" "tuple_ord Lt t u = Inr True"
    by (auto simp: lt_def ordering_def split: if_splits sum.splits)
  from assms(2) xy(3) obtain v where yz: "issubclass (ob_type z) (ob_type y)"
      "attrs_to_tuple attrs z = Inr v" "tuple_ord Lt u v = Inr True"
    by (auto simp: lt_def ordering_def split: if_splits sum.splits)
  have "issubclass (ob_type z) (ob_type x)" using yz(1) xy(1) by (rule issubclass_trans)
  moreover have "tuple_ord Lt t v = Inr True" using xy(4) yz(3) by (rule tuple_lt_trans)
  ultimately show ?thesis using xy(2) yz(2) by (simp add: lt_def ordering_def)
qed

theorem lt_transitive_witness:
  "lt [''a''] \<lparr>ob_type = PyType 0 ''P'' [], ob_dict = [''a'' \<mapsto> PInt 1]\<rparr>
     (Instance \<lparr>ob_type = PyType 0 ''P'' [], ob_dict = [''a'' \<mapsto> PInt 2]\<rparr>) = Inr (Truth True)
   \<and> lt [''a''] \<lparr>ob_type = PyType 0 ''P'' [], ob_dict = [''a'' \<mapsto> PInt 2]\<rparr>
     (Instance \<lparr>ob_type = PyType 0 ''P'' [], ob_dict = [''a'' \<mapsto> PInt 3]\<rparr>) = Inr (Truth True)
   \<and> lt [''a''] \<lparr>ob_type = PyType 0 ''P'' [], ob_dict = [''a'' \<mapsto> PInt 1]\<rparr>
     (Instance \<lparr>ob_type = PyType 0 ''P'' [], ob_dict = [''a'' \<mapsto> PInt 3]\<rparr>) = Inr (Truth True)"
proof -
  have a: "lt [''a''] \<lparr>ob_type = PyType 0 ''P'' [], ob_dict = [''a'' \<mapsto> PInt 1]\<rparr>
     (Instance \<lparr>ob_type = PyType 0 ''P'' [], ob_dict = [''a'' \<mapsto> PInt 2]\<rparr>) = Inr (Truth True)"
    by (simp add: lt_def ordering_def getattr_def ord_holds_def)
  have b: "lt [''a''] \<lparr>ob_type = PyType 0 ''P'' [], ob_dict = [''a'' \<mapsto> PInt 2]\<rparr>
     (Instance \<lparr>ob_type = PyType 0 ''P'' [], ob_dict = [''a'' \<mapsto> PInt 3]\<rparr>) = Inr (Truth True)"
    by (simp add: lt_def ordering_def getattr_def ord_holds_def)
  from a b lt_transitive [OF a b] show ?thesis by blast
qed

section \<open>Properties of the combinator\<close>

text \<open>
  Claim C10: \<^verbatim>\<open>attributes\<close> always applies \<^verbatim>\<open>with_cmp\<close> and \<^verbatim>\<open>with_repr\<close>, and applies
  \<^verbatim>\<open>with_init\<close> only when \<^verbatim>\<open>create_init\<close> is the object \<^verbatim>\<open>True\<close>. For any other value,
  truthy or not, the result is the class with the comparison and formatting methods and
  with its initializer untouched; for \<^verbatim>\<open>True\<close> the result is what \<^verbatim>\<open>with_init\<close> makes of
  that class. Whenever a class is returned it has the eight synthesized methods, and its
  initializer is a generated one that keeps the original exactly when \<^verbatim>\<open>create_init\<close> is
  \<^verbatim>\<open>True\<close>.
\<close>

theorem attributes_create_init:
  "(create_init \<noteq> PBool True \<longrightarrow>
      attributes attrs defaults create_init cl = Inr (with_cmp attrs (with_repr attrs cl)) \<and>
      cls_init (with_cmp attrs (with_repr attrs cl)) = cls_init cl \<and>
      cls_original_init (with_cmp attrs (with_repr attrs cl)) = cls_original_init cl)
   \<and> attributes attrs defaults (PBool True) cl =
       (case with_init attrs defaults of Inl e \<Rightarrow> Inl e
        | Inr wrap \<Rightarrow> Inr (wrap (with_cmp attrs (with_repr attrs cl))))
   \<and> (\<forall>cl'. attributes attrs defaults create_init cl = Inr cl' \<longrightarrow>
        cls_eq cl' = Some (eq attrs) \<and> cls_ne cl' = Some (ne attrs) \<and>
        cls_lt cl' = Some (lt attrs) \<and> cls_le cl' = Some (le attrs) \<and>
        cls_gt cl' = Some (gt attrs) \<and> cls_ge cl' = Some (ge attrs) \<and>
        cls_hash cl' = Some (\<lambda>h. hash_fn h attrs) \<and> cls_repr cl' = Some (repr_fn attrs) \<and>
        (create_init = PBool True \<longrightarrow>
           synthesized (cls_init cl') \<and> cls_original_init cl' = Some (cls_init cl)))"
  by (auto simp: attributes_def with_cmp_def with_repr_def with_init_def make_wrap_init_def
      synthesized_def Let_def split: sum.splits list.splits)

theorem attributes_create_init_witness:
  "truthy (PInt 1) \<and> truthy (PStr ''yes'') \<and>
   attributes [''a''] None (PInt 1) (new_class 0 ''Type'' [] object_init)
     = Inr (with_cmp [''a''] (with_repr [''a''] (new_class 0 ''Type'' [] object_init))) \<and>
   attributes [''a''] None (PStr ''yes'') (new_class 0 ''Type'' [] object_init)
     = Inr (with_cmp [''a''] (with_repr [''a''] (new_class 0 ''Type'' [] object_init))) \<and>
   cls_init (with_cmp [''a''] (with_repr [''a''] (new_class 0 ''Type'' [] object_init)))
     = Written object_init \<and>
   (\<exists>cl'. attributes [''attr''] None (PBool True) (new_class 0 ''Type'' [] object_init) = Inr cl' \<and>
      synthesized (cls_init cl') \<and> cls_original_init cl' = Some (Written object_init) \<and>
      cls_repr cl' = Some (repr_fn [''attr'']))"
  using attributes_create_init [of "PInt 1" "[''a'']" None "new_class 0 ''Type'' [] object_init"]
    attributes_create_init [of "PStr ''yes''" "[''a'']" None "new_class 0 ''Type'' [] object_init"]
    attributes_create_init [of "PBool True" "[''attr'']" None "new_class 0 ''Type'' [] object_init"]
  by (simp add: new_class_def with_init_examples)

end
